theory Spec2Isabelle
  imports Complex_Main
begin

section \<open>Data model (shared/schema.ts)\<close>

text \<open>
  The four tables of the schema, one record per row type. Identifiers are JavaScript
  numbers holding integers (\<open>serial\<close> columns) and are modelled as \<open>int\<close>; text
  columns are strings; nullable columns are options; timestamps are ticks of the store's
  clock. A JSON object of type \<open>Record<string, string>\<close>, in memory or in a
  \<open>jsonb\<close> column, is the finite map of its own properties; the order of its keys is
  not represented.
\<close>

record user =
  user_id :: int
  user_email :: string
  user_username :: string
  user_password :: string
  user_displayName :: string
  user_profilePhoto :: "string option"
  user_publicKey :: "string option"
  user_role :: string
  user_preferredLanguage :: string
  user_createdAt :: nat

record room =
  room_id :: int
  room_roomCode :: string
  room_name :: string
  room_createdBy :: int
  room_languages :: "string list"
  room_isActive :: bool
  room_createdAt :: nat

record roomParticipant =
  rp_id :: int
  rp_roomId :: int
  rp_userId :: int
  rp_language :: string
  rp_joinedAt :: nat

record message =
  msg_id :: int
  msg_roomId :: int
  msg_senderId :: int
  msg_content :: string
  msg_translatedContent :: "(string \<rightharpoonup> string) option"
  msg_originalLanguage :: "string option"
  msg_messageType :: string
  msg_createdAt :: nat

text \<open>
  The database as the storage layer uses it: each table is the list of its rows in
  insertion order (a \<open>select\<close> returns the matching rows in that order), each
  \<open>serial\<close> column has its sequence, and \<open>CURRENT_TIMESTAMP\<close> reads \<open>clock\<close>.
  An insert appends the row and returns it. Where the schema makes the database reject a
  statement, the call raises, and the storage layer catches nothing. The model has these
  rejections: a query for an id outside the 32-bit range of the integer columns, and the
  insert of a room row whose code a room row already has (\<open>room_code\<close> is unique)
  or whose creator has no user row (\<open>created_by\<close> references \<open>users.id\<close>).
  \<open>joinRoom\<close> and \<open>createMessage\<close> are taken where the database accepts their
  insert.
\<close>

datatype db_error = OutOfRange | UniqueViolation | ForeignKeyViolation

definition int4 :: "int \<Rightarrow> bool" where
  "int4 i = (- 2147483648 \<le> i \<and> i \<le> 2147483647)"

record store =
  users :: "user list"
  rooms :: "room list"
  roomParticipants :: "roomParticipant list"
  messages :: "message list"
  users_seq :: int
  rooms_seq :: int
  roomParticipants_seq :: int
  messages_seq :: int
  clock :: nat


section \<open>JavaScript helpers\<close>

text \<open>\<open>a || b\<close> on a possibly undefined string: the empty string is falsy too.\<close>

definition or_string :: "string option \<Rightarrow> string \<Rightarrow> string" where
  "or_string a b = (case a of None \<Rightarrow> b | Some s \<Rightarrow> if s = [] then b else s)"

text \<open>
  A JavaScript \<open>Set\<close> is the list of its elements in insertion order:
  \<open>add\<close> appends an element that is not there yet, and \<open>new Set(xs)\<close> adds
  the elements of \<open>xs\<close> one by one.
\<close>

definition set_add :: "'a \<Rightarrow> 'a list \<Rightarrow> 'a list" where
  "set_add x xs = (if x \<in> set xs then xs else xs @ [x])"

definition new_Set :: "'a list \<Rightarrow> 'a list" where
  "new_Set xs = fold set_add xs []"

text \<open>
  \<open>String.prototype.trim\<close>: strings are lists of code units below 256, and the
  white space among them is tab, line feed, vertical tab, form feed, carriage return,
  space and the no-break space.
\<close>

definition is_space :: "char \<Rightarrow> bool" where
  "is_space c = (of_char c \<in> {9, 10, 11, 12, 13, 32, 160 :: nat})"

definition trim :: "string \<Rightarrow> string" where
  "trim s = rev (dropWhile is_space (rev (dropWhile is_space s)))"

section \<open>The storage layer (server/storage.ts)\<close>

definition getUserById :: "store \<Rightarrow> int \<Rightarrow> user option" where
  "getUserById db i = find (\<lambda>u. user_id u = i) (users db)"

definition getRoomById :: "store \<Rightarrow> int \<Rightarrow> room option" where
  "getRoomById db i = find (\<lambda>r. room_id r = i) (rooms db)"

definition membership :: "store \<Rightarrow> int \<Rightarrow> int \<Rightarrow> roomParticipant list" where
  \<comment> \<open>the \<open>select\<close> shared by \<open>joinRoom\<close> and \<open>isUserInRoom\<close>\<close>
  "membership db roomId userId =
     filter (\<lambda>p. rp_roomId p = roomId \<and> rp_userId p = userId) (roomParticipants db)"

definition joinRoom :: "store \<Rightarrow> int \<Rightarrow> int \<Rightarrow> string option \<Rightarrow> roomParticipant \<times> store" where
  "joinRoom db roomId userId language =
     (case membership db roomId userId of
        p # _ \<Rightarrow> (p, db)
      | [] \<Rightarrow>
          (let participant =
                 \<lparr>rp_id = roomParticipants_seq db, rp_roomId = roomId, rp_userId = userId,
                  rp_language = (case language of None \<Rightarrow> ''en'' | Some l \<Rightarrow> l),
                  rp_joinedAt = clock db\<rparr>
           in (participant,
               db\<lparr>roomParticipants := roomParticipants db @ [participant],
                  roomParticipants_seq := roomParticipants_seq db + 1\<rparr>)))"

definition isUserInRoom :: "store \<Rightarrow> int \<Rightarrow> int \<Rightarrow> bool" where
  "isUserInRoom db roomId userId = (length (membership db roomId userId) > 0)"


definition getRoomParticipants :: "store \<Rightarrow> int \<Rightarrow> (roomParticipant \<times> user) list" where
  \<comment> \<open>each participant row of the room whose user row exists, paired with that user (the
      code keeps the user's id, displayName and profilePhoto)\<close>
  "getRoomParticipants db roomId =
     concat (map (\<lambda>p. case getUserById db (rp_userId p) of None \<Rightarrow> [] | Some u \<Rightarrow> [(p, u)])
       (filter (\<lambda>p. rp_roomId p = roomId) (roomParticipants db)))"

text \<open>
  The tables of a real database hold ids of the integer range only, and participant rows
  of rooms that exist (\<open>room_id\<close> references \<open>rooms.id\<close>).
\<close>

definition ids_in_range :: "store \<Rightarrow> bool" where
  "ids_in_range db =
     (list_all (\<lambda>u. int4 (user_id u)) (users db) \<and>
      list_all (\<lambda>r. int4 (room_id r)) (rooms db) \<and>
      list_all (\<lambda>p. int4 (rp_roomId p) \<and> int4 (rp_userId p)) (roomParticipants db))"

definition participants_reference_rooms :: "store \<Rightarrow> bool" where
  "participants_reference_rooms db =
     list_all (\<lambda>p. getRoomById db (rp_roomId p) \<noteq> None) (roomParticipants db)"

definition createMessage ::
  "store \<Rightarrow> int \<Rightarrow> int \<Rightarrow> string \<Rightarrow> string option \<Rightarrow> string option \<Rightarrow>
     (string \<rightharpoonup> string) option \<Rightarrow> message \<times> store" where
  "createMessage db roomId senderId content messageType originalLanguage translatedContent =
     (let message =
            \<lparr>msg_id = messages_seq db, msg_roomId = roomId, msg_senderId = senderId,
             msg_content = content, msg_translatedContent = translatedContent,
             msg_originalLanguage = originalLanguage,
             msg_messageType = (case messageType of None \<Rightarrow> ''text'' | Some t \<Rightarrow> t),
             msg_createdAt = clock db\<rparr>
      in (message, db\<lparr>messages := messages db @ [message], messages_seq := messages_seq db + 1\<rparr>))"

subsection \<open>Room codes\<close>

text \<open>
  \<open>Math.random()\<close> is the sequence \<open>rnd\<close> of the values it returns, read at a
  cursor that every call advances by one. The values are doubles, hence rationals, and
  the product with 32 and its floor are exact.
\<close>

definition chars :: string where
  "chars = ''ABCDEFGHJKLMNPQRSTUVWXYZ23456789''"

definition charAt :: "string \<Rightarrow> int \<Rightarrow> string" where
  "charAt s i = (if 0 \<le> i \<and> i < int (length s) then [s ! nat i] else [])"

function generateRoomCode_loop :: "(nat \<Rightarrow> rat) \<Rightarrow> nat \<Rightarrow> nat \<Rightarrow> string \<Rightarrow> string \<times> nat" where
  "generateRoomCode_loop rnd k i code =
     (if i < 6
      then generateRoomCode_loop rnd (k + 1) (i + 1)
             (code @ charAt chars \<lfloor>rnd k * of_nat (length chars)\<rfloor>)
      else (code, k))"
  by pat_completeness auto
termination
  by (relation "measure (\<lambda>(rnd, k, i, code). 6 - i)") auto

definition generateRoomCode :: "(nat \<Rightarrow> rat) \<Rightarrow> nat \<Rightarrow> string \<times> nat" where
  "generateRoomCode rnd k = generateRoomCode_loop rnd k 0 []"

definition code_taken :: "store \<Rightarrow> string \<Rightarrow> bool" where
  \<comment> \<open>the probe of \<open>createRoom\<close>: some room row has this code\<close>
  "code_taken db roomCode = (length (filter (\<lambda>r. room_roomCode r = roomCode) (rooms db)) \<noteq> 0)"

function createRoom_loop :: "(nat \<Rightarrow> rat) \<Rightarrow> store \<Rightarrow> string \<Rightarrow> nat \<Rightarrow> nat \<Rightarrow> string \<times> nat" where
  "createRoom_loop rnd db roomCode k attempts =
     (if attempts < 10
      then if \<not> code_taken db roomCode then (roomCode, k)
           else createRoom_loop rnd db (fst (generateRoomCode rnd k)) (snd (generateRoomCode rnd k))
                  (attempts + 1)
      else (roomCode, k))"
  by pat_completeness auto
termination
  by (relation "measure (\<lambda>(rnd, db, roomCode, k, attempts). 10 - attempts)") auto

text \<open>
  \<open>createRoom\<close> picks the code, then inserts the room row and the creator's participant
  row. The insert of the room row is rejected, and nothing is written, when the creator's
  id is out of range, when the code is taken, or when the creator has no user row; once
  the room row is in, the participant row references an existing room and an existing
  user.
\<close>

definition createRoom ::
  "(nat \<Rightarrow> rat) \<Rightarrow> nat \<Rightarrow> store \<Rightarrow> string \<Rightarrow> int \<Rightarrow> string list option \<Rightarrow>
     db_error + (room \<times> store \<times> nat)" where
  "createRoom rnd k db name createdBy languages_arg =
     (let languages = (case languages_arg of None \<Rightarrow> [''en''] | Some ls \<Rightarrow> ls);
          first = generateRoomCode rnd k;
          chosen = createRoom_loop rnd db (fst first) (snd first) 0;
          room =
            \<lparr>room_id = rooms_seq db, room_roomCode = fst chosen, room_name = name,
             room_createdBy = createdBy, room_languages = languages, room_isActive = True,
             room_createdAt = clock db\<rparr>;
          db1 = db\<lparr>rooms := rooms db @ [room], rooms_seq := rooms_seq db + 1\<rparr>;
          participant =
            \<lparr>rp_id = roomParticipants_seq db1, rp_roomId = room_id room, rp_userId = createdBy,
             rp_language = or_string (case languages of [] \<Rightarrow> None | l # _ \<Rightarrow> Some l) ''en'',
             rp_joinedAt = clock db1\<rparr>;
          db2 = db1\<lparr>roomParticipants := roomParticipants db1 @ [participant],
                   roomParticipants_seq := roomParticipants_seq db1 + 1\<rparr>
      in if \<not> int4 createdBy then Inl OutOfRange
         else if code_taken db (fst chosen) then Inl UniqueViolation
         else if getUserById db createdBy = None then Inl ForeignKeyViolation
         else Inr (room, db2, snd chosen))"

definition nth_code :: "(nat \<Rightarrow> rat) \<Rightarrow> nat \<Rightarrow> nat \<Rightarrow> string" where
  \<comment> \<open>the \<open>j\<close>-th code generated from cursor \<open>k\<close> on (each code reads six values)\<close>
  "nth_code rnd k j = fst (generateRoomCode rnd (k + 6 * j))"

section \<open>The translator (server/translation.ts)\<close>

record translationResult =
  tr_detectedLanguage :: string
  tr_translations :: "string \<rightharpoonup> string"
  tr_confidence :: rat

text \<open>
  What the completion request does is not the program's to decide, so it is an input:
  the request throws, or it resolves with a \<open>content\<close> that may be missing. The
  result of \<open>JSON.parse\<close> on the matched text is an input too (\<open>None\<close> when it
  throws), with each field of the parsed object present or not. The prompt built from
  the language names only feeds the request and is left out.
\<close>

datatype api_reply = ApiThrows | ApiContent "string option"

record parsedJson =
  pj_detectedLanguage :: "string option"
  pj_translations :: "(string \<rightharpoonup> string) option"
  pj_confidence :: "rat option"

definition json_match :: "string \<Rightarrow> string option" where
  \<comment> \<open>\<open>content.match(/\{[\s\S]*\}/)\<close>: from the first opening brace to the last closing
      brace after it\<close>
  "json_match content =
     (case dropWhile (\<lambda>c. c \<noteq> CHR ''{'') content of
        [] \<Rightarrow> None
      | b # rest \<Rightarrow>
          (case rev (dropWhile (\<lambda>c. c \<noteq> CHR ''}'') (rev rest)) of
             [] \<Rightarrow> None
           | body \<Rightarrow> Some (b # body)))"

text \<open>
  \<open>obj[key] = value\<close> with a string value on a plain object: the key \<open>__proto__\<close>
  is the accessor of \<open>Object.prototype\<close>, whose setter ignores a value that is not
  an object, so no property is created; any other key becomes an own property.
\<close>

definition assign :: "string \<Rightarrow> string \<Rightarrow> (string \<rightharpoonup> string) \<Rightarrow> (string \<rightharpoonup> string)" where
  "assign key v obj = (if key = ''__proto__'' then obj else obj(key \<mapsto> v))"

definition fallback :: "string \<Rightarrow> string list \<Rightarrow> (string \<rightharpoonup> string)" where
  "fallback text targetLanguages = fold (\<lambda>lang obj. assign lang text obj) targetLanguages Map.empty"

definition translateMessage ::
  "api_reply \<Rightarrow> (string \<Rightarrow> parsedJson option) \<Rightarrow> string \<Rightarrow> string list \<Rightarrow> translationResult" where
  "translateMessage api parse text targetLanguages =
     (let caught = \<lparr>tr_detectedLanguage = ''unknown'', tr_translations = fallback text targetLanguages,
                     tr_confidence = 0\<rparr>
      in if length targetLanguages = 0
         then \<lparr>tr_detectedLanguage = ''en'', tr_translations = Map.empty, tr_confidence = 1\<rparr>
         else
           (case api of
              ApiThrows \<Rightarrow> caught
            | ApiContent c \<Rightarrow>
                (case json_match (or_string c []) of
                   None \<Rightarrow> caught
                 | Some jsonMatch \<Rightarrow>
                     (case parse jsonMatch of
                        None \<Rightarrow> caught
                      | Some result \<Rightarrow>
                          \<lparr>tr_detectedLanguage = or_string (pj_detectedLanguage result) ''en'',
                           tr_translations =
                             (case pj_translations result of None \<Rightarrow> Map.empty | Some t \<Rightarrow> t),
                           tr_confidence =
                             (case pj_confidence result of
                                None \<Rightarrow> 8 / 10
                              | Some x \<Rightarrow> if x = 0 then 8 / 10 else x)\<rparr>))))"

definition translator_fails :: "api_reply \<Rightarrow> (string \<Rightarrow> parsedJson option) \<Rightarrow> bool" where
  \<comment> \<open>the request throws, or its content holds no braces, or the braces do not parse\<close>
  "translator_fails api parse =
     (case api of
        ApiThrows \<Rightarrow> True
      | ApiContent c \<Rightarrow>
          (case json_match (or_string c []) of None \<Rightarrow> True | Some j \<Rightarrow> parse j = None))"


section \<open>The real-time layer (server/socket.ts)\<close>

text \<open>
  The events the server emits, with their payloads, and the sender summary embedded in
  a \<open>new_message\<close>.
\<close>

record senderSummary =
  ss_id :: int
  ss_displayName :: string
  ss_profilePhoto :: "string option"

datatype event =
    Error string
  | Authenticated int
  | UserJoined int "string option" int
  | UserLeft int int
  | OnlineUsers int "int list"
  | NewMessage message senderSummary translationResult
  | UserTyping int int bool

text \<open>
  What a handler does to the outside, in the order it does it: a call of the
  translator, the insert of a message row, an emission with the connections that
  receive it (\<open>socket.emit\<close> reaches the socket itself, \<open>socket.to(room)\<close> the
  room's live group without the socket, \<open>io.to(room)\<close> the whole live group). No
  handler has a \<open>catch\<close>: when a store query raises, the handler stops there, and
  \<open>Throws\<close> is its last effect.
\<close>

datatype effect =
    CallTranslator string "string list"
  | StoreCreateMessage message
  | Emit "string list" event
  | Throws db_error

text \<open>
  The state of the process: the store, the two module-level maps, the live groups of
  the socket server (the group of key \<open>room:<id>\<close> is found under the room id), and
  for each socket id the \<open>currentUserId\<close> of its connection (\<open>None\<close> is
  \<open>null\<close>). A handler runs from its first statement to its last on one state; the
  store does not change under it, and may change between two events (the REST routes
  write to it).

  The first store query of a handler raises when an id it is given lies outside the
  integer range. No row holds such an id, so this is a case of the query finding nothing:
  there the handler stops with \<open>Throws\<close> instead of taking its not-found branch. The
  later queries of the handler are given the same ids.
\<close>

record server_state =
  storage :: store
  onlineUsers :: "int \<Rightarrow> string list option"
  userRooms :: "string \<Rightarrow> int list option"
  live_group :: "int \<Rightarrow> string list"
  currentUserId :: "string \<Rightarrow> int option"

definition initial_state :: "store \<Rightarrow> server_state" where
  "initial_state d =
     \<lparr>storage = d, onlineUsers = (\<lambda>_. None), userRooms = (\<lambda>_. None), live_group = (\<lambda>_. []),
      currentUserId = (\<lambda>_. None)\<rparr>"

definition with_user :: "int option \<Rightarrow> 'a \<Rightarrow> (int \<Rightarrow> 'a) \<Rightarrow> 'a" where
  \<comment> \<open>\<open>if (!currentUserId) no; else yes\<close>: \<open>null\<close> and \<open>0\<close> are falsy\<close>
  "with_user cu no yes = (case cu of None \<Rightarrow> no | Some u \<Rightarrow> if u = 0 then no else yes u)"

definition others :: "server_state \<Rightarrow> int \<Rightarrow> string \<Rightarrow> string list" where
  \<comment> \<open>the receivers of \<open>socket.to(roomKey)\<close>\<close>
  "others st roomId sid = filter (\<lambda>s. s \<noteq> sid) (live_group st roomId)"

definition getOnlineUsersInRoom :: "server_state \<Rightarrow> int \<Rightarrow> int list" where
  "getOnlineUsersInRoom st roomId =
     map (\<lambda>p. rp_userId (fst p))
       (filter (\<lambda>p. onlineUsers st (rp_userId (fst p)) \<noteq> None) (getRoomParticipants (storage st) roomId))"

definition authenticate :: "server_state \<Rightarrow> string \<Rightarrow> int \<Rightarrow> server_state \<times> effect list" where
  "authenticate st sid userId =
     (let st1 = st\<lparr>currentUserId := (currentUserId st)(sid := Some userId)\<rparr>
      in case getUserById (storage st1) userId of
           None \<Rightarrow>
             if int4 userId then (st1, [Emit [sid] (Error ''User not found'')])
             else (st1, [Throws OutOfRange])
         | Some user \<Rightarrow>
             (let sockets = (case onlineUsers st1 userId of None \<Rightarrow> [] | Some s \<Rightarrow> s)
              in (st1\<lparr>onlineUsers := (onlineUsers st1)(userId \<mapsto> set_add sid sockets)\<rparr>,
                  [Emit [sid] (Authenticated userId)])))"

definition join_room :: "server_state \<Rightarrow> string \<Rightarrow> int \<Rightarrow> server_state \<times> effect list" where
  "join_room st sid roomId =
     with_user (currentUserId st sid)
       (st, [Emit [sid] (Error ''Not authenticated'')])
       (\<lambda>uid.
          if \<not> isUserInRoom (storage st) roomId uid
          then if int4 roomId \<and> int4 uid
               then (st, [Emit [sid] (Error ''Not a member of this room'')])
               else (st, [Throws OutOfRange])
          else
            (let st1 = st\<lparr>live_group := (live_group st)(roomId := set_add sid (live_group st roomId))\<rparr>;
                 joined = (case userRooms st1 sid of None \<Rightarrow> [] | Some rs \<Rightarrow> rs);
                 st2 = st1\<lparr>userRooms := (userRooms st1)(sid \<mapsto> set_add roomId joined)\<rparr>;
                 user = getUserById (storage st2) uid;
                 onlineInRoom = getOnlineUsersInRoom st2 roomId
             in (st2,
                 [Emit (others st2 roomId sid) (UserJoined uid (map_option user_displayName user) roomId),
                  Emit (live_group st2 roomId) (OnlineUsers roomId onlineInRoom)])))"

definition senderLang :: "store \<Rightarrow> int \<Rightarrow> int \<Rightarrow> string" where
  "senderLang d roomId uid =
     or_string
       (map_option (\<lambda>p. rp_language (fst p))
          (find (\<lambda>p. rp_userId (fst p) = uid) (getRoomParticipants d roomId)))
       ''en''"

definition targetLanguages :: "store \<Rightarrow> int \<Rightarrow> int \<Rightarrow> string list" where
  "targetLanguages d roomId uid =
     new_Set (filter (\<lambda>lang. lang \<noteq> senderLang d roomId uid)
                (map (\<lambda>p. rp_language (fst p)) (getRoomParticipants d roomId)))"

definition send_message ::
  "api_reply \<Rightarrow> (string \<Rightarrow> parsedJson option) \<Rightarrow> server_state \<Rightarrow> string \<Rightarrow> int \<Rightarrow> string \<Rightarrow>
     string option \<Rightarrow> server_state \<times> effect list" where
  "send_message api parse st sid roomId content messageType =
     with_user (currentUserId st sid)
       (st, [Emit [sid] (Error ''Not authenticated'')])
       (\<lambda>uid.
          if \<not> isUserInRoom (storage st) roomId uid
          then if int4 roomId \<and> int4 uid
               then (st, [Emit [sid] (Error ''Not a member of this room'')])
               else (st, [Throws OutOfRange])
          else
            (case getRoomById (storage st) roomId of
               None \<Rightarrow> (st, [])
             | Some room \<Rightarrow>
                 (let targets = targetLanguages (storage st) roomId uid;
                      translate = (length targets > 0 \<and> length (trim content) > 0);
                      translationResult =
                        (if translate then translateMessage api parse content targets
                         else \<lparr>tr_detectedLanguage = senderLang (storage st) roomId uid,
                               tr_translations = Map.empty, tr_confidence = 1\<rparr>);
                      created =
                        createMessage (storage st) roomId uid content (Some (or_string messageType ''text''))
                          (Some (tr_detectedLanguage translationResult))
                          (Some (tr_translations translationResult));
                      st1 = st\<lparr>storage := snd created\<rparr>;
                      sender =
                        (case getUserById (storage st1) uid of
                           Some s \<Rightarrow>
                             \<lparr>ss_id = user_id s, ss_displayName = user_displayName s,
                              ss_profilePhoto = user_profilePhoto s\<rparr>
                         | None \<Rightarrow>
                             \<lparr>ss_id = uid, ss_displayName = ''Unknown'', ss_profilePhoto = None\<rparr>)
                  in (st1,
                      (if translate then [CallTranslator content targets] else []) @
                      [StoreCreateMessage (fst created),
                       Emit (live_group st1 roomId) (NewMessage (fst created) sender translationResult)]))))"

definition typing :: "server_state \<Rightarrow> string \<Rightarrow> int \<Rightarrow> bool \<Rightarrow> server_state \<times> effect list" where
  "typing st sid roomId isTyping =
     with_user (currentUserId st sid)
       (st, [])
       (\<lambda>uid. (st, [Emit (others st roomId sid) (UserTyping uid roomId isTyping)]))"

definition is_error :: "effect \<Rightarrow> bool" where
  "is_error e = (case e of Emit _ (Error _) \<Rightarrow> True | _ \<Rightarrow> False)"

section \<open>A sample deployment\<close>

text \<open>
  The scenario of the specification: user 1 (Ann, language \<open>en\<close> in the room) and
  user 2 (Bo, language \<open>es\<close>) are the participants of room 42; Ann is connected on
  socket \<open>sA\<close> and Bo on socket \<open>sB\<close>, both authenticated and joined.
\<close>

definition demo_store :: store where
  "demo_store =
     \<lparr>users =
        [\<lparr>user_id = 1, user_email = ''ann@x'', user_username = ''ann'', user_password = ''h1'',
          user_displayName = ''Ann'', user_profilePhoto = None, user_publicKey = None,
          user_role = ''user'', user_preferredLanguage = ''en'', user_createdAt = 1\<rparr>,
         \<lparr>user_id = 2, user_email = ''bo@x'', user_username = ''bo'', user_password = ''h2'',
          user_displayName = ''Bo'', user_profilePhoto = None, user_publicKey = None,
          user_role = ''user'', user_preferredLanguage = ''es'', user_createdAt = 2\<rparr>],
      rooms =
        [\<lparr>room_id = 42, room_roomCode = ''R42ABC'', room_name = ''R42'', room_createdBy = 1,
          room_languages = [''en'', ''es''], room_isActive = True, room_createdAt = 3\<rparr>],
      roomParticipants =
        [\<lparr>rp_id = 1, rp_roomId = 42, rp_userId = 1, rp_language = ''en'', rp_joinedAt = 3\<rparr>,
         \<lparr>rp_id = 2, rp_roomId = 42, rp_userId = 2, rp_language = ''es'', rp_joinedAt = 4\<rparr>],
      messages = [],
      users_seq = 3, rooms_seq = 43, roomParticipants_seq = 3, messages_seq = 1, clock = 5\<rparr>"

definition demo_state :: server_state where
  "demo_state =
     fst (join_room
       (fst (authenticate
         (fst (join_room (fst (authenticate (initial_state demo_store) ''sA'' 1)) ''sA'' 42))
         ''sB'' 2))
       ''sB'' 42)"

definition demo_message :: "string \<Rightarrow> string \<Rightarrow> (string \<rightharpoonup> string) \<Rightarrow> message" where
  \<comment> \<open>the first message row of room 42, sent by Ann\<close>
  "demo_message content lang translated =
     \<lparr>msg_id = 1, msg_roomId = 42, msg_senderId = 1, msg_content = content,
      msg_translatedContent = Some translated, msg_originalLanguage = Some lang,
      msg_messageType = ''text'', msg_createdAt = 5\<rparr>"

definition demo_sender :: senderSummary where
  "demo_sender = \<lparr>ss_id = 1, ss_displayName = ''Ann'', ss_profilePhoto = None\<rparr>"

definition ann_state :: server_state where
  \<comment> \<open>only Ann is connected: authenticated and joined on socket \<open>sA\<close>\<close>
  "ann_state = fst (join_room (fst (authenticate (initial_state demo_store) ''sA'' 1)) ''sA'' 42)"

definition store_with_cy :: store where
  \<comment> \<open>\<open>demo_store\<close> after a third user has registered and joined room 42 through the
      REST routes\<close>
  "store_with_cy =
     demo_store
       \<lparr>users := users demo_store @
          [\<lparr>user_id = 3, user_email = ''cy@x'', user_username = ''cy'', user_password = ''h3'',
            user_displayName = ''Cy'', user_profilePhoto = None, user_publicKey = None,
            user_role = ''user'', user_preferredLanguage = ''en'', user_createdAt = 6\<rparr>],
        users_seq := 4,
        roomParticipants := roomParticipants demo_store @
          [\<lparr>rp_id = 3, rp_roomId = 42, rp_userId = 3, rp_language = ''en'', rp_joinedAt = 7\<rparr>],
        roomParticipants_seq := 4,
        clock := 8\<rparr>"

definition store_with_proto :: store where
  \<comment> \<open>\<open>demo_store\<close> after Bo has set his language in room 42 to \<open>__proto__\<close>\<close>
  "store_with_proto =
     demo_store
       \<lparr>roomParticipants :=
          [\<lparr>rp_id = 1, rp_roomId = 42, rp_userId = 1, rp_language = ''en'', rp_joinedAt = 3\<rparr>,
           \<lparr>rp_id = 2, rp_roomId = 42, rp_userId = 2, rp_language = ''__proto__'',
            rp_joinedAt = 4\<rparr>]\<rparr>"

definition store_with_blank_language :: store where
  \<comment> \<open>room 42 before anybody joined it, then \<open>joinRoom\<close> for Ann with the empty string
      as her language: Ann is the only participant\<close>
  "store_with_blank_language =
     snd (joinRoom (demo_store\<lparr>roomParticipants := [], roomParticipants_seq := 1\<rparr>) 42 1 (Some ''''))"

definition store_with_code_A :: store where
  \<comment> \<open>\<open>demo_store\<close> after Ann has created room 43, which got the code \<open>AAAAAA\<close>\<close>
  "store_with_code_A =
     demo_store
       \<lparr>rooms := rooms demo_store @
          [\<lparr>room_id = 43, room_roomCode = ''AAAAAA'', room_name = ''a'', room_createdBy = 1,
            room_languages = [''en''], room_isActive = True, room_createdAt = 5\<rparr>],
        rooms_seq := 44,
        roomParticipants := roomParticipants demo_store @
          [\<lparr>rp_id = 3, rp_roomId = 43, rp_userId = 1, rp_language = ''en'', rp_joinedAt = 5\<rparr>],
        roomParticipants_seq := 4\<rparr>"

section \<open>Membership in the store\<close>








section \<open>Room codes and room creation\<close>

declare generateRoomCode_loop.simps [simp del]
declare createRoom_loop.simps [simp del]

lemma length_chars: "length chars = 32"
  by (simp add: chars_def)

lemma chars_unambiguous: "set chars \<inter> {CHR ''0'', CHR ''1'', CHR ''I'', CHR ''O''} = {}"
  by (simp add: chars_def)

lemma charAt_in_range:
  assumes "0 \<le> r" and "r < (1::rat)"
  shows "\<exists>c. charAt chars \<lfloor>r * of_nat (length chars)\<rfloor> = [c] \<and> c \<in> set chars"
proof -
  have lo: "0 \<le> \<lfloor>r * 32\<rfloor>" using assms by simp
  have "r * 32 < 32" using assms by simp
  then have hi: "\<lfloor>r * 32\<rfloor> < 32" by (simp add: floor_less_iff)
  from lo hi have "nat \<lfloor>r * 32\<rfloor> < 32" by linarith
  then have "nat \<lfloor>r * 32\<rfloor> < length chars" by (simp only: length_chars)
  then have "chars ! nat \<lfloor>r * 32\<rfloor> \<in> set chars" by (rule nth_mem)
  moreover have "charAt chars \<lfloor>r * of_nat (length chars)\<rfloor> = [chars ! nat \<lfloor>r * 32\<rfloor>]"
    unfolding charAt_def length_chars using lo hi by (simp del: zero_le_floor floor_less_iff)
  ultimately show ?thesis by simp
qed

lemma generateRoomCode_loop_cursor:
  "snd (generateRoomCode_loop rnd k i code) = k + (6 - i)"
proof (induction rnd k i code rule: generateRoomCode_loop.induct)
  case (1 rnd k i code)
  show ?case
  proof (cases "i < 6")
    case True
    with "1" show ?thesis by (subst generateRoomCode_loop.simps) simp
  next
    case False
    then show ?thesis by (subst generateRoomCode_loop.simps) simp
  qed
qed

lemma generateRoomCode_loop_code:
  assumes "\<forall>i. 0 \<le> rnd i \<and> rnd i < 1"
  shows "\<exists>cs. fst (generateRoomCode_loop rnd k i code) = code @ cs \<and> length cs = 6 - i \<and>
              set cs \<subseteq> set chars"
  using assms
proof (induction rnd k i code rule: generateRoomCode_loop.induct)
  case (1 rnd k i code)
  show ?case
  proof (cases "i < 6")
    case True
    have "0 \<le> rnd k" and "rnd k < 1" using "1.prems" by simp_all
    from charAt_in_range [OF this] obtain c
      where c: "charAt chars \<lfloor>rnd k * of_nat (length chars)\<rfloor> = [c]" "c \<in> set chars"
      by blast
    from "1.IH" [OF True "1.prems"] obtain cs
      where cs: "fst (generateRoomCode_loop rnd (k + 1) (i + 1)
                   (code @ charAt chars \<lfloor>rnd k * of_nat (length chars)\<rfloor>)) =
                 (code @ charAt chars \<lfloor>rnd k * of_nat (length chars)\<rfloor>) @ cs"
        "length cs = 6 - (i + 1)" "set cs \<subseteq> set chars"
      by blast
    have "fst (generateRoomCode_loop rnd k i code) =
            fst (generateRoomCode_loop rnd (k + 1) (i + 1)
                   (code @ charAt chars \<lfloor>rnd k * of_nat (length chars)\<rfloor>))"
      using True by (subst generateRoomCode_loop.simps) simp
    also have "\<dots> = (code @ charAt chars \<lfloor>rnd k * of_nat (length chars)\<rfloor>) @ cs"
      by (rule cs(1))
    also have "\<dots> = code @ (c # cs)"
      by (simp only: c(1) append_assoc append_Cons append_Nil)
    finally have "fst (generateRoomCode_loop rnd k i code) = code @ (c # cs)" .
    moreover have "length (c # cs) = 6 - i" using True cs(2) by simp
    moreover have "set (c # cs) \<subseteq> set chars" using c(2) cs(3) by simp
    ultimately show ?thesis by blast
  next
    case False
    then show ?thesis by (subst generateRoomCode_loop.simps) simp
  qed
qed

lemma generateRoomCode_cursor: "snd (generateRoomCode rnd k) = k + 6"
  by (simp add: generateRoomCode_def generateRoomCode_loop_cursor)

lemma generateRoomCode_code:
  assumes "\<forall>i. 0 \<le> rnd i \<and> rnd i < 1"
  shows "length (fst (generateRoomCode rnd k)) = 6 \<and> set (fst (generateRoomCode rnd k)) \<subseteq> set chars"
  using generateRoomCode_loop_code [OF assms, of k 0 "[]"] by (auto simp: generateRoomCode_def)


lemma createRoom_loop_choice:
  assumes "attempts \<le> 10" and "roomCode = nth_code rnd k0 attempts" and "k = k0 + 6 * (attempts + 1)"
  shows "\<exists>j. attempts \<le> j \<and> j \<le> 10 \<and>
             createRoom_loop rnd db roomCode k attempts = (nth_code rnd k0 j, k0 + 6 * (j + 1)) \<and>
             (\<forall>i. attempts \<le> i \<and> i < j \<longrightarrow> code_taken db (nth_code rnd k0 i)) \<and>
             (j < 10 \<longrightarrow> \<not> code_taken db (nth_code rnd k0 j))"
  using assms
proof (induction rnd db roomCode k attempts rule: createRoom_loop.induct)
  case (1 rnd db roomCode k attempts)
  show ?case
  proof (cases "attempts < 10")
    case False
    with "1.prems" have "attempts = 10" by simp
    with "1.prems" show ?thesis
      by (subst createRoom_loop.simps) auto
  next
    case True
    show ?thesis
    proof (cases "code_taken db roomCode")
      case False
      with True "1.prems" show ?thesis
        by (subst createRoom_loop.simps) auto
    next
      case taken: True
      have next_code: "fst (generateRoomCode rnd k) = nth_code rnd k0 (attempts + 1)"
        using "1.prems" by (simp add: nth_code_def)
      have next_cursor: "snd (generateRoomCode rnd k) = k0 + 6 * (attempts + 1 + 1)"
        using "1.prems" by (simp add: generateRoomCode_cursor)
      from "1.IH" [OF True _ _ next_code next_cursor] True taken obtain j
        where j: "attempts + 1 \<le> j" "j \<le> 10"
          "createRoom_loop rnd db (fst (generateRoomCode rnd k)) (snd (generateRoomCode rnd k)) (attempts + 1) =
             (nth_code rnd k0 j, k0 + 6 * (j + 1))"
          "\<forall>i. attempts + 1 \<le> i \<and> i < j \<longrightarrow> code_taken db (nth_code rnd k0 i)"
          "j < 10 \<longrightarrow> \<not> code_taken db (nth_code rnd k0 j)"
        by auto
      have "createRoom_loop rnd db roomCode k attempts = (nth_code rnd k0 j, k0 + 6 * (j + 1))"
        using True taken j(3) by (subst createRoom_loop.simps) simp
      moreover have "\<forall>i. attempts \<le> i \<and> i < j \<longrightarrow> code_taken db (nth_code rnd k0 i)"
      proof (intro allI impI)
        fix i assume i: "attempts \<le> i \<and> i < j"
        show "code_taken db (nth_code rnd k0 i)"
        proof (cases "i = attempts")
          case True
          with taken "1.prems" show ?thesis by simp
        next
          case False
          with i j(4) show ?thesis by simp
        qed
      qed
      ultimately show ?thesis using j(1,2,5) by (intro exI [of _ j]) simp
    qed
  qed
qed


lemma code_taken_iff: "code_taken db c \<longleftrightarrow> c \<in> room_roomCode ` set (rooms db)"
  by (auto simp: code_taken_def filter_empty_conv)

lemma createRoom_outcome:
  "createRoom rnd k db name createdBy languages =
     (let chosen = createRoom_loop rnd db (fst (generateRoomCode rnd k)) (snd (generateRoomCode rnd k)) 0
      in if \<not> int4 createdBy then Inl OutOfRange
         else if code_taken db (fst chosen) then Inl UniqueViolation
         else if getUserById db createdBy = None then Inl ForeignKeyViolation
         else Inr
           (\<lparr>room_id = rooms_seq db, room_roomCode = fst chosen, room_name = name,
             room_createdBy = createdBy,
             room_languages = (case languages of None \<Rightarrow> [''en''] | Some ls \<Rightarrow> ls),
             room_isActive = True, room_createdAt = clock db\<rparr>,
            db\<lparr>rooms := rooms db @
                 [\<lparr>room_id = rooms_seq db, room_roomCode = fst chosen, room_name = name,
                   room_createdBy = createdBy,
                   room_languages = (case languages of None \<Rightarrow> [''en''] | Some ls \<Rightarrow> ls),
                   room_isActive = True, room_createdAt = clock db\<rparr>],
               rooms_seq := rooms_seq db + 1,
               roomParticipants := roomParticipants db @
                 [\<lparr>rp_id = roomParticipants_seq db, rp_roomId = rooms_seq db, rp_userId = createdBy,
                   rp_language =
                     or_string
                       (case (case languages of None \<Rightarrow> [''en''] | Some ls \<Rightarrow> ls) of
                          [] \<Rightarrow> None
                        | l # _ \<Rightarrow> Some l)
                       ''en'',
                   rp_joinedAt = clock db\<rparr>],
               roomParticipants_seq := roomParticipants_seq db + 1\<rparr>,
            snd chosen))"
  by (simp add: createRoom_def Let_def)

text \<open>
  C9, as stated, fails: when every probed code collides, \<open>createRoom\<close> does go on with
  the last generated code, but the creation can still fail. Here every generated code is
  \<open>AAAAAA\<close>, which room 43 has: the ten probes collide, the eleventh code is inserted
  unprobed, and the unique constraint on the room code rejects it, although creator 2
  exists.
\<close>

lemma generateRoomCode_zero: "generateRoomCode (\<lambda>_. 0) k = (''AAAAAA'', k + 6)"
  by (simp add: generateRoomCode_def generateRoomCode_loop.simps charAt_def chars_def)

theorem createRoom_collision_counterexample:
  "code_taken store_with_code_A ''AAAAAA'' \<and>
   nth_code (\<lambda>_. 0) 0 10 = ''AAAAAA'' \<and>
   getUserById store_with_code_A 2 \<noteq> None \<and>
   createRoom (\<lambda>_. 0) 0 store_with_code_A ''b'' 2 None = Inl UniqueViolation"
  by (simp add: createRoom_outcome Let_def createRoom_loop.simps generateRoomCode_zero nth_code_def
      code_taken_def store_with_code_A_def demo_store_def getUserById_def int4_def)

text \<open>
  C9, amended. Provided every value of \<open>Math.random()\<close> lies in the interval from 0
  (included) to 1 (excluded), a generated code has exactly 6 characters, all of the
  alphabet \<open>chars\<close>, which has none of \<open>0\<close>, \<open>1\<close>, \<open>I\<close>, \<open>O\<close>.
  \<open>createRoom\<close> hands to the insert the \<open>j\<close>-th generated code for some \<open>j\<close>
  of at most 10 (the first code and at most ten regenerated ones): every earlier code is
  the code of a room row, and the chosen one is the code of no room row unless it is the
  eleventh, which is not probed. The creation then succeeds, appending the room row with
  that code, exactly when the creator's id is in range, no room row has the code and the
  creator has a user row; otherwise it is rejected and nothing is created. So when all
  ten probes collide the call goes on with the last code, and succeeds when that code is
  free.
\<close>

theorem createRoom_code:
  assumes "\<forall>i. 0 \<le> rnd i \<and> rnd i < 1"
  shows "length (fst (generateRoomCode rnd k)) = 6 \<and>
         set (fst (generateRoomCode rnd k)) \<subseteq> set chars \<and>
         set chars \<inter> {CHR ''0'', CHR ''1'', CHR ''I'', CHR ''O''} = {} \<and>
         (\<exists>j\<le>10.
            (\<forall>i<j. nth_code rnd k i \<in> room_roomCode ` set (rooms db)) \<and>
            (j < 10 \<longrightarrow> nth_code rnd k j \<notin> room_roomCode ` set (rooms db)) \<and>
            length (nth_code rnd k j) = 6 \<and> set (nth_code rnd k j) \<subseteq> set chars \<and>
            (if \<not> int4 createdBy
             then createRoom rnd k db name createdBy languages = Inl OutOfRange
             else if nth_code rnd k j \<in> room_roomCode ` set (rooms db)
             then createRoom rnd k db name createdBy languages = Inl UniqueViolation
             else if getUserById db createdBy = None
             then createRoom rnd k db name createdBy languages = Inl ForeignKeyViolation
             else \<exists>room db'.
                    createRoom rnd k db name createdBy languages = Inr (room, db', k + 6 * (j + 1)) \<and>
                    room_roomCode room = nth_code rnd k j \<and>
                    rooms db' = rooms db @ [room]))"
proof -
  have gen: "length (fst (generateRoomCode rnd k')) = 6 \<and> set (fst (generateRoomCode rnd k')) \<subseteq> set chars"
    for k' by (rule generateRoomCode_code [OF assms])
  have "fst (generateRoomCode rnd k) = nth_code rnd k 0" by (simp add: nth_code_def)
  moreover have "snd (generateRoomCode rnd k) = k + 6 * (0 + 1)" by (simp add: generateRoomCode_cursor)
  ultimately obtain j where j: "j \<le> 10"
      "createRoom_loop rnd db (fst (generateRoomCode rnd k)) (snd (generateRoomCode rnd k)) 0 =
         (nth_code rnd k j, k + 6 * (j + 1))"
      "\<forall>i. 0 \<le> i \<and> i < j \<longrightarrow> code_taken db (nth_code rnd k i)"
      "j < 10 \<longrightarrow> \<not> code_taken db (nth_code rnd k j)"
    using createRoom_loop_choice [of 0 "fst (generateRoomCode rnd k)" rnd k "snd (generateRoomCode rnd k)" db]
    by auto
  have valid: "length (nth_code rnd k j) = 6 \<and> set (nth_code rnd k j) \<subseteq> set chars"
    unfolding nth_code_def by (rule gen)
  have probes: "\<forall>i<j. nth_code rnd k i \<in> room_roomCode ` set (rooms db)"
    and free: "j < 10 \<longrightarrow> nth_code rnd k j \<notin> room_roomCode ` set (rooms db)"
    using j(3,4) by (simp_all add: code_taken_iff)
  have outcome: "if \<not> int4 createdBy
             then createRoom rnd k db name createdBy languages = Inl OutOfRange
             else if nth_code rnd k j \<in> room_roomCode ` set (rooms db)
             then createRoom rnd k db name createdBy languages = Inl UniqueViolation
             else if getUserById db createdBy = None
             then createRoom rnd k db name createdBy languages = Inl ForeignKeyViolation
             else \<exists>room db'.
                    createRoom rnd k db name createdBy languages = Inr (room, db', k + 6 * (j + 1)) \<and>
                    room_roomCode room = nth_code rnd k j \<and>
                    rooms db' = rooms db @ [room]"
    by (simp add: createRoom_outcome Let_def j(2) code_taken_iff)
  from gen [of k] chars_unambiguous j(1) probes free valid outcome show ?thesis by blast
qed

lemma demo_create_room:
  "createRoom (\<lambda>_. 0) 0 demo_store ''a'' 1 None =
     Inr (\<lparr>room_id = 43, room_roomCode = ''AAAAAA'', room_name = ''a'', room_createdBy = 1,
           room_languages = [''en''], room_isActive = True, room_createdAt = 5\<rparr>,
          store_with_code_A, 6)"
  by (simp add: createRoom_outcome Let_def createRoom_loop.simps generateRoomCode_zero
      code_taken_def store_with_code_A_def demo_store_def getUserById_def int4_def or_string_def)

theorem createRoom_code_witness:
  "length (fst (generateRoomCode (\<lambda>i. if i < 60 then 0 else 1 / 2) 0)) = 6 \<and>
   nth_code (\<lambda>i. if i < 60 then 0 else 1 / 2) 0 9 = ''AAAAAA'' \<and>
   nth_code (\<lambda>i. if i < 60 then 0 else 1 / 2) 0 10 = ''SSSSSS'' \<and>
   (\<exists>room db'.
      createRoom (\<lambda>i. if i < 60 then 0 else 1 / 2) 0 store_with_code_A ''b'' 2 None =
        Inr (room, db', 66) \<and>
      room_roomCode room = ''SSSSSS'' \<and> rooms db' = rooms store_with_code_A @ [room])"
proof -
  let ?rnd = "\<lambda>i::nat. if i < 60 then 0 else (1 / 2 :: rat)"
  have rnd: "\<forall>i. 0 \<le> ?rnd i \<and> ?rnd i < 1" by simp
  have early: "nth_code ?rnd 0 j = ''AAAAAA''" if "j < 10" for j
  proof -
    from that have "j \<in> {0, 1, 2, 3, 4, 5, 6, 7, 8, 9}" by auto
    then show ?thesis
      by (auto simp: nth_code_def generateRoomCode_def generateRoomCode_loop.simps charAt_def chars_def)
  qed
  have last: "nth_code ?rnd 0 10 = ''SSSSSS''"
    by (simp add: nth_code_def generateRoomCode_def generateRoomCode_loop.simps charAt_def chars_def)
  have codes: "room_roomCode ` set (rooms store_with_code_A) = {''R42ABC'', ''AAAAAA''}"
    by (auto simp: store_with_code_A_def demo_store_def)
  have creator: "int4 2" "getUserById store_with_code_A 2 \<noteq> None"
    by (simp_all add: int4_def store_with_code_A_def demo_store_def getUserById_def)
  from createRoom_code [OF rnd, of 0 store_with_code_A 2 "''b''" None] obtain j
    where j: "j \<le> 10"
      "j < 10 \<longrightarrow> nth_code ?rnd 0 j \<notin> room_roomCode ` set (rooms store_with_code_A)"
      "if \<not> int4 2
       then createRoom ?rnd 0 store_with_code_A ''b'' 2 None = Inl OutOfRange
       else if nth_code ?rnd 0 j \<in> room_roomCode ` set (rooms store_with_code_A)
       then createRoom ?rnd 0 store_with_code_A ''b'' 2 None = Inl UniqueViolation
       else if getUserById store_with_code_A 2 = None
       then createRoom ?rnd 0 store_with_code_A ''b'' 2 None = Inl ForeignKeyViolation
       else \<exists>room db'.
              createRoom ?rnd 0 store_with_code_A ''b'' 2 None = Inr (room, db', 0 + 6 * (j + 1)) \<and>
              room_roomCode room = nth_code ?rnd 0 j \<and>
              rooms db' = rooms store_with_code_A @ [room]"
    by blast
  have "j = 10"
  proof (rule ccontr)
    assume "j \<noteq> 10"
    with j(1) have "j < 10" by simp
    with j(2) early [of j] codes show False by simp
  qed
  with j(3) last codes creator have
    "\<exists>room db'.
      createRoom ?rnd 0 store_with_code_A ''b'' 2 None = Inr (room, db', 66) \<and>
      room_roomCode room = ''SSSSSS'' \<and> rooms db' = rooms store_with_code_A @ [room]"
    by simp
  moreover from createRoom_code [OF rnd, of 0 store_with_code_A 2 "''b''" None]
  have "length (fst (generateRoomCode ?rnd 0)) = 6" by blast
  ultimately show ?thesis using early [of 9] last by simp
qed

text \<open>
  C10, as stated, fails: the language of the creator's participant row is not always the
  first element of \<open>languages\<close> when there is one. Ann creates a room with
  \<open>languages = ["", "fr"]\<close>: the call succeeds, the list is not empty and its first
  element is the empty string, yet the row's language is \<open>en\<close>, since
  \<open>languages[0] || "en"\<close> treats the empty string as absent.
\<close>

theorem createRoom_language_counterexample:
  "\<not> isl (createRoom (\<lambda>_. 0) 0 demo_store ''r'' 1 (Some ['''', ''fr''])) \<and>
   rp_language (last (roomParticipants (fst (snd (projr
     (createRoom (\<lambda>_. 0) 0 demo_store ''r'' 1 (Some ['''', ''fr'']))))))) = ''en'' \<and>
   hd ['''', ''fr''] = '''' \<and> ['''', ''fr''] \<noteq> []"
  by (simp add: createRoom_outcome Let_def createRoom_loop.simps generateRoomCode_zero
      code_taken_def demo_store_def getUserById_def int4_def or_string_def)

text \<open>
  C10, amended. Every successful \<open>createRoom(name, createdBy, languages)\<close> has
  appended one participant row for the new room and the creating user, whose language is
  the first element of \<open>languages\<close> when that is a non-empty string, and \<open>en\<close>
  when \<open>languages\<close> is omitted, is empty, or starts with the empty string; right after
  the call \<open>isUserInRoom\<close> holds for the creator and the new room, with no call of
  \<open>joinRoom\<close>.
\<close>

theorem createRoom_adds_creator:
  assumes "createRoom rnd k db name createdBy languages = Inr (room, db', k')"
  shows "roomParticipants db' =
           roomParticipants db @
             [\<lparr>rp_id = roomParticipants_seq db, rp_roomId = room_id room, rp_userId = createdBy,
               rp_language =
                 (case languages of
                    None \<Rightarrow> ''en''
                  | Some [] \<Rightarrow> ''en''
                  | Some (l # _) \<Rightarrow> if l = [] then ''en'' else l),
               rp_joinedAt = clock db\<rparr>] \<and>
         isUserInRoom db' (room_id room) createdBy \<and>
         rooms db' = rooms db @ [room] \<and> room_createdBy room = createdBy \<and>
         getUserById db createdBy \<noteq> None"
  using assms
  by (auto simp: createRoom_outcome Let_def or_string_def isUserInRoom_def membership_def
      split: option.splits list.splits if_splits)

theorem createRoom_adds_creator_witness:
  "createRoom (\<lambda>_. 0) 0 demo_store ''a'' 1 None =
     Inr (\<lparr>room_id = 43, room_roomCode = ''AAAAAA'', room_name = ''a'', room_createdBy = 1,
           room_languages = [''en''], room_isActive = True, room_createdAt = 5\<rparr>,
          store_with_code_A, 6) \<and>
   roomParticipants store_with_code_A =
     roomParticipants demo_store @
       [\<lparr>rp_id = 3, rp_roomId = 43, rp_userId = 1, rp_language = ''en'', rp_joinedAt = 5\<rparr>] \<and>
   isUserInRoom store_with_code_A 43 1"
  using createRoom_adds_creator [OF demo_create_room] demo_create_room
  by (simp add: demo_store_def)

section \<open>The real-time handlers\<close>

lemmas store_defs = getUserById_def getRoomById_def membership_def isUserInRoom_def
  getRoomParticipants_def createMessage_def int4_def

lemmas socket_defs = with_user_def others_def getOnlineUsersInRoom_def set_add_def
  new_Set_def senderLang_def targetLanguages_def or_string_def assign_def

lemma demo_state_eq:
  "demo_state =
     \<lparr>storage = demo_store,
      onlineUsers = (\<lambda>_. None)(1 \<mapsto> [''sA''], 2 \<mapsto> [''sB'']),
      userRooms = (\<lambda>_. None)(''sA'' \<mapsto> [42], ''sB'' \<mapsto> [42]),
      live_group = (\<lambda>_. [])(42 := [''sA'', ''sB'']),
      currentUserId = (\<lambda>_. None)(''sA'' := Some 1, ''sB'' := Some 2)\<rparr>"
  by (simp add: demo_state_def initial_state_def authenticate_def join_room_def demo_store_def
      store_defs socket_defs Let_def)

lemma ann_state_eq:
  "ann_state =
     \<lparr>storage = demo_store,
      onlineUsers = (\<lambda>_. None)(1 \<mapsto> [''sA'']),
      userRooms = (\<lambda>_. None)(''sA'' \<mapsto> [42]),
      live_group = (\<lambda>_. [])(42 := [''sA'']),
      currentUserId = (\<lambda>_. None)(''sA'' := Some 1)\<rparr>"
  by (simp add: ann_state_def initial_state_def authenticate_def join_room_def demo_store_def
      store_defs socket_defs Let_def)

text \<open>
  On a store whose ids are in range, a query for an id out of range finds nothing, so the
  handlers raise exactly where the query of the code does.
\<close>

lemma out_of_range_finds_nothing:
  assumes "ids_in_range d" and "\<not> int4 i"
  shows "getUserById d i = None" and "getRoomById d i = None"
    and "\<not> isUserInRoom d i u" and "\<not> isUserInRoom d r i"
proof -
  from assms show "getUserById d i = None"
    by (auto simp: ids_in_range_def getUserById_def find_None_iff list_all_iff)
  from assms show "getRoomById d i = None"
    by (auto simp: ids_in_range_def getRoomById_def find_None_iff list_all_iff)
  from assms show "\<not> isUserInRoom d i u"
    by (auto simp: ids_in_range_def isUserInRoom_def membership_def filter_empty_conv list_all_iff)
  from assms show "\<not> isUserInRoom d r i"
    by (auto simp: ids_in_range_def isUserInRoom_def membership_def filter_empty_conv list_all_iff)
qed

lemma send_message_reached:
  assumes "currentUserId st sid = Some uid" and "uid \<noteq> 0"
    and "isUserInRoom (storage st) roomId uid" and "getRoomById (storage st) roomId = Some room"
  shows "send_message api parse st sid roomId content messageType =
     (let targets = targetLanguages (storage st) roomId uid;
          translate = (targets \<noteq> [] \<and> trim content \<noteq> []);
          translationResult =
            (if translate then translateMessage api parse content targets
             else \<lparr>tr_detectedLanguage = senderLang (storage st) roomId uid,
                   tr_translations = Map.empty, tr_confidence = 1\<rparr>);
          created =
            createMessage (storage st) roomId uid content (Some (or_string messageType ''text''))
              (Some (tr_detectedLanguage translationResult))
              (Some (tr_translations translationResult));
          sender =
            (case getUserById (storage st) uid of
               Some s \<Rightarrow>
                 \<lparr>ss_id = user_id s, ss_displayName = user_displayName s,
                  ss_profilePhoto = user_profilePhoto s\<rparr>
             | None \<Rightarrow> \<lparr>ss_id = uid, ss_displayName = ''Unknown'', ss_profilePhoto = None\<rparr>)
      in (st\<lparr>storage := snd created\<rparr>,
          (if translate then [CallTranslator content targets] else []) @
          [StoreCreateMessage (fst created),
           Emit (live_group st roomId) (NewMessage (fst created) sender translationResult)]))"
  using assms
  by (simp add: send_message_def with_user_def Let_def createMessage_def getUserById_def)

lemma send_message_shape:
  "(\<exists>msg. send_message api parse st sid roomId content messageType = (st, [Emit [sid] (Error msg)])) \<or>
   (\<exists>e. send_message api parse st sid roomId content messageType = (st, [Throws e])) \<or>
   send_message api parse st sid roomId content messageType = (st, []) \<or>
   (\<exists>pre m s t st'.
      send_message api parse st sid roomId content messageType =
        (st', pre @ [StoreCreateMessage m, Emit (live_group st roomId) (NewMessage m s t)]) \<and>
      (pre = [] \<or> (\<exists>x y. pre = [CallTranslator x y])) \<and>
      messages (storage st') = messages (storage st) @ [m])"
proof (cases "\<exists>uid. currentUserId st sid = Some uid \<and> uid \<noteq> 0")
  case False
  then have "send_message api parse st sid roomId content messageType =
      (st, [Emit [sid] (Error ''Not authenticated'')])"
    by (auto simp: send_message_def with_user_def split: option.splits)
  then show ?thesis by blast
next
  case True
  then obtain uid where uid: "currentUserId st sid = Some uid" "uid \<noteq> 0" by blast
  show ?thesis
  proof (cases "isUserInRoom (storage st) roomId uid")
    case False
    with uid have "send_message api parse st sid roomId content messageType =
        (st, [Emit [sid] (Error ''Not a member of this room'')]) \<or>
      send_message api parse st sid roomId content messageType = (st, [Throws OutOfRange])"
      by (simp add: send_message_def with_user_def)
    then show ?thesis by blast
  next
    case member: True
    show ?thesis
    proof (cases "getRoomById (storage st) roomId")
      case None
      with uid member have "send_message api parse st sid roomId content messageType = (st, [])"
        by (simp add: send_message_def with_user_def)
      then show ?thesis by blast
    next
      case (Some room)
      show ?thesis
        unfolding send_message_reached [OF uid member Some]
        by (simp add: Let_def createMessage_def)
    qed
  qed
qed

text \<open>
  C1. Persistence happens before the broadcast. In the effects of any
  \<open>send_message\<close>, listed in the order the handler performs them, every emission of a
  \<open>new_message\<close> event comes after the insert of the very message row it carries,
  and that row is the one the call appended to the message table: no \<open>new_message\<close>
  is emitted for a message that has not been stored.
\<close>

theorem persist_before_broadcast:
  assumes "send_message api parse st sid roomId content messageType = (st', trace)"
    and "i < length trace" and "trace ! i = Emit rs (NewMessage m s t)"
  shows "(\<exists>j<i. trace ! j = StoreCreateMessage m) \<and>
         messages (storage st') = messages (storage st) @ [m]"
proof -
  from send_message_shape [of api parse st sid roomId content messageType]
  consider
    (err) msg where "trace = [Emit [sid] (Error msg)]"
  | (raised) e where "trace = [Throws e]"
  | (silent) "trace = []"
  | (sent) pre m0 s0 t0 where
      "trace = pre @ [StoreCreateMessage m0, Emit (live_group st roomId) (NewMessage m0 s0 t0)]"
      "pre = [] \<or> (\<exists>x y. pre = [CallTranslator x y])"
      "messages (storage st') = messages (storage st) @ [m0]"
    using assms(1) by auto
  then show ?thesis
  proof cases
    case err
    with assms(2,3) show ?thesis by simp
  next
    case raised
    with assms(2,3) show ?thesis by simp
  next
    case silent
    with assms(2) show ?thesis by simp
  next
    case sent
    from sent(2) show ?thesis
    proof
      assume "pre = []"
      with sent(1,3) assms(2,3) show ?thesis
        by (cases i) (auto simp: nth_Cons')
    next
      assume "\<exists>x y. pre = [CallTranslator x y]"
      then obtain x y where "pre = [CallTranslator x y]" by blast
      with sent(1,3) assms(2,3) have "i = 2 \<and> m = m0"
        by (auto simp: nth_Cons' less_Suc_eq numeral_3_eq_3 numeral_2_eq_2 split: if_splits)
      with sent(1,3) \<open>pre = [CallTranslator x y]\<close> show ?thesis
        by (auto intro!: exI [of _ 1])
    qed
  qed
qed

lemma demo_send_hello:
  "send_message ApiThrows (\<lambda>_. None) demo_state ''sA'' 42 ''Hello'' None =
     (demo_state\<lparr>storage :=
        demo_store\<lparr>messages := [demo_message ''Hello'' ''unknown'' [''es'' \<mapsto> ''Hello'']],
                   messages_seq := 2\<rparr>\<rparr>,
      [CallTranslator ''Hello'' [''es''],
       StoreCreateMessage (demo_message ''Hello'' ''unknown'' [''es'' \<mapsto> ''Hello'']),
       Emit [''sA'', ''sB'']
         (NewMessage (demo_message ''Hello'' ''unknown'' [''es'' \<mapsto> ''Hello'']) demo_sender
            \<lparr>tr_detectedLanguage = ''unknown'', tr_translations = [''es'' \<mapsto> ''Hello''],
             tr_confidence = 0\<rparr>)])"
  by (simp add: demo_state_eq send_message_def demo_store_def demo_message_def demo_sender_def
      store_defs socket_defs Let_def trim_def is_space_def translateMessage_def fallback_def)

theorem persist_before_broadcast_witness:
  "(\<exists>j<2. snd (send_message ApiThrows (\<lambda>_. None) demo_state ''sA'' 42 ''Hello'' None) ! j =
      StoreCreateMessage (demo_message ''Hello'' ''unknown'' [''es'' \<mapsto> ''Hello''])) \<and>
   messages (storage (fst (send_message ApiThrows (\<lambda>_. None) demo_state ''sA'' 42 ''Hello'' None))) =
     [demo_message ''Hello'' ''unknown'' [''es'' \<mapsto> ''Hello'']] \<and>
   snd (send_message ApiThrows (\<lambda>_. None) demo_state ''sA'' 42 ''Hello'' None) ! 2 =
     Emit [''sA'', ''sB'']
       (NewMessage (demo_message ''Hello'' ''unknown'' [''es'' \<mapsto> ''Hello'']) demo_sender
          \<lparr>tr_detectedLanguage = ''unknown'', tr_translations = [''es'' \<mapsto> ''Hello''],
           tr_confidence = 0\<rparr>)"
proof -
  have emitted: "snd (send_message ApiThrows (\<lambda>_. None) demo_state ''sA'' 42 ''Hello'' None) ! 2 =
     Emit [''sA'', ''sB'']
       (NewMessage (demo_message ''Hello'' ''unknown'' [''es'' \<mapsto> ''Hello'']) demo_sender
          \<lparr>tr_detectedLanguage = ''unknown'', tr_translations = [''es'' \<mapsto> ''Hello''],
           tr_confidence = 0\<rparr>)"
    and len: "2 < length (snd (send_message ApiThrows (\<lambda>_. None) demo_state ''sA'' 42 ''Hello'' None))"
    by (simp_all add: demo_send_hello)
  have before: "messages (storage demo_state) = []"
    by (simp add: demo_state_eq demo_store_def)
  from persist_before_broadcast [OF prod.collapse [symmetric] len emitted] before emitted
  show ?thesis by simp
qed
lemma fold_assign_lookup:
  "fold (\<lambda>lang obj. assign lang text obj) ts acc l =
     (if l \<in> set ts \<and> l \<noteq> ''__proto__'' then Some text else acc l)"
  by (induction ts arbitrary: acc) (auto simp: assign_def)

lemma fallback_lookup:
  "fallback text ts l = (if l \<in> set ts \<and> l \<noteq> ''__proto__'' then Some text else None)"
  by (simp add: fallback_def fold_assign_lookup)

lemma translateMessage_caught:
  assumes "translator_fails api parse" and "ts \<noteq> []"
  shows "translateMessage api parse text ts =
           \<lparr>tr_detectedLanguage = ''unknown'', tr_translations = fallback text ts, tr_confidence = 0\<rparr>"
  using assms
  by (auto simp: translateMessage_def translator_fails_def Let_def
      split: api_reply.splits option.splits)

text \<open>
  C2. What the code does when the translator fails and a target language is
  \<open>__proto__\<close>. Bo has set his language in room 42 to \<open>__proto__\<close>, Ann sends
  \<open>Hello\<close> and the translator's request throws. The message is stored and broadcast
  with confidence 0 and without an error, but its translation map is empty: the
  assignment \<open>fallback["__proto__"] = text\<close> creates no property, so the requested
  target language is not mapped to the original text.
\<close>

theorem proto_language_has_no_fallback:
  "targetLanguages store_with_proto 42 1 = [''__proto__''] \<and>
   translator_fails ApiThrows (\<lambda>_. None) \<and>
   fallback ''Hello'' [''__proto__''] ''__proto__'' = None \<and>
   send_message ApiThrows (\<lambda>_. None) (demo_state\<lparr>storage := store_with_proto\<rparr>)
       ''sA'' 42 ''Hello'' None =
     (demo_state\<lparr>storage :=
        store_with_proto\<lparr>messages := [demo_message ''Hello'' ''unknown'' Map.empty],
                         messages_seq := 2\<rparr>\<rparr>,
      [CallTranslator ''Hello'' [''__proto__''],
       StoreCreateMessage (demo_message ''Hello'' ''unknown'' Map.empty),
       Emit [''sA'', ''sB'']
         (NewMessage (demo_message ''Hello'' ''unknown'' Map.empty) demo_sender
            \<lparr>tr_detectedLanguage = ''unknown'', tr_translations = Map.empty,
             tr_confidence = 0\<rparr>)])"
  by (simp add: demo_state_eq send_message_def store_with_proto_def demo_store_def
      demo_message_def demo_sender_def store_defs socket_defs Let_def trim_def is_space_def
      translateMessage_def translator_fails_def fallback_def)

text \<open>
  The rest of C2 holds in general. When an authenticated participant of an existing room
  sends a message for which the translator is called (there is a target language and the
  content is not blank) and the call fails (the request throws, or its answer holds no
  braces, or the braces do not parse), the handler still inserts one message row and
  broadcasts it to the room's live group: the stored translation map is the broadcast
  one, it maps every requested target language other than \<open>__proto__\<close> to the
  original text, the broadcast confidence is exactly 0, and no effect of the call is an
  \<open>error\<close> event or a raised error.
\<close>

theorem send_message_translator_failure:
  assumes "currentUserId st sid = Some uid" and "uid \<noteq> 0"
    and "isUserInRoom (storage st) roomId uid"
    and "getRoomById (storage st) roomId = Some room"
    and "targetLanguages (storage st) roomId uid \<noteq> []" and "trim content \<noteq> []"
    and "translator_fails api parse"
  shows "\<exists>m sender tr.
           send_message api parse st sid roomId content messageType =
             (st\<lparr>storage := (storage st)\<lparr>messages := messages (storage st) @ [m],
                                         messages_seq := messages_seq (storage st) + 1\<rparr>\<rparr>,
              [CallTranslator content (targetLanguages (storage st) roomId uid),
               StoreCreateMessage m,
               Emit (live_group st roomId) (NewMessage m sender tr)]) \<and>
           msg_content m = content \<and> msg_roomId m = roomId \<and> msg_senderId m = uid \<and>
           msg_translatedContent m = Some (tr_translations tr) \<and>
           tr_confidence tr = 0 \<and>
           (\<forall>l \<in> set (targetLanguages (storage st) roomId uid).
              tr_translations tr l = (if l = ''__proto__'' then None else Some content)) \<and>
           (\<forall>e \<in> set (snd (send_message api parse st sid roomId content messageType)).
              \<not> is_error e \<and> (\<forall>err. e \<noteq> Throws err))"
proof -
  let ?ts = "targetLanguages (storage st) roomId uid"
  have tr: "translateMessage api parse content ?ts =
      \<lparr>tr_detectedLanguage = ''unknown'', tr_translations = fallback content ?ts, tr_confidence = 0\<rparr>"
    using assms(7,5) by (rule translateMessage_caught)
  show ?thesis
    unfolding send_message_reached [OF assms(1-4)]
    using assms(5,6) tr
    by (simp add: Let_def createMessage_def fallback_lookup is_error_def)
qed

theorem send_message_translator_failure_witness:
  "translator_fails (ApiContent (Some ''Sorry, I cannot.'')) (\<lambda>_. None) \<and>
   targetLanguages (storage demo_state) 42 1 = [''es''] \<and>
   (\<exists>m sender tr.
      snd (send_message (ApiContent (Some ''Sorry, I cannot.'')) (\<lambda>_. None) demo_state
             ''sA'' 42 ''Hello'' None) =
        [CallTranslator ''Hello'' [''es''], StoreCreateMessage m,
         Emit [''sA'', ''sB''] (NewMessage m sender tr)] \<and>
      msg_translatedContent m = Some (tr_translations tr) \<and> tr_confidence tr = 0 \<and>
      tr_translations tr ''es'' = Some ''Hello'')"
proof -
  have fails: "translator_fails (ApiContent (Some ''Sorry, I cannot.'')) (\<lambda>_. None)"
    by (simp add: translator_fails_def json_match_def or_string_def)
  have ts: "targetLanguages (storage demo_state) 42 1 = [''es'']"
    by (simp add: demo_state_eq demo_store_def store_defs socket_defs)
  have cu: "currentUserId demo_state ''sA'' = Some 1"
    and member: "isUserInRoom (storage demo_state) 42 1"
    and group: "live_group demo_state 42 = [''sA'', ''sB'']"
    by (simp_all add: demo_state_eq demo_store_def store_defs)
  have room: "getRoomById (storage demo_state) 42 = Some (hd (rooms demo_store))"
    by (simp add: demo_state_eq demo_store_def store_defs)
  have content: "trim ''Hello'' \<noteq> []"
    by (simp add: trim_def is_space_def)
  from send_message_translator_failure [OF cu _ member room _ content fails, of None] ts group fails
  show ?thesis by auto
qed

lemma find_sender_row:
  assumes "getUserById d uid = Some u"
  shows "find (\<lambda>q. rp_userId (fst q) = uid)
           (concat (map (\<lambda>p. case getUserById d (rp_userId p) of None \<Rightarrow> [] | Some u \<Rightarrow> [(p, u)])
              (filter (\<lambda>p. rp_roomId p = r) rows))) =
         (case filter (\<lambda>p. rp_roomId p = r \<and> rp_userId p = uid) rows of
            [] \<Rightarrow> None
          | p # _ \<Rightarrow> Some (p, u))"
  using assms by (induction rows) (auto split: option.splits)

lemma senderLang_stored:
  assumes "getUserById d uid = Some u" and "membership d roomId uid = p # ps"
  shows "senderLang d roomId uid = (if rp_language p = [] then ''en'' else rp_language p)"
  using find_sender_row [OF assms(1), of roomId "roomParticipants d"] assms(2)
  by (simp add: senderLang_def getRoomParticipants_def membership_def or_string_def)

lemma new_Set_empty_iff: "new_Set xs = [] \<longleftrightarrow> xs = []"
proof -
  have "set (fold set_add ys acc) = set ys \<union> set acc" for ys :: "'a list" and acc
    by (induction ys arbitrary: acc) (auto simp: set_add_def)
  from this [of xs "[]"] show ?thesis
    by (metis new_Set_def set_empty sup_bot.right_neutral)
qed

lemma targetLanguages_empty_iff:
  "targetLanguages d roomId uid = [] \<longleftrightarrow>
     (\<forall>p \<in> set (getRoomParticipants d roomId). rp_language (fst p) = senderLang d roomId uid)"
  by (auto simp: targetLanguages_def new_Set_empty_iff filter_empty_conv)

text \<open>
  C5, as stated, fails: with the empty string as the sender's stored room language the
  handler does not compare with that language but with \<open>en\<close>. Ann is the only
  participant of room 42 and her language there is the empty string, so no participant
  language differs from hers; she sends \<open>Hello\<close>, and the translator is called with
  the target language \<open>""\<close> (here its request throws, and the stored original
  language is \<open>unknown\<close>, not Ann's).
\<close>

theorem blank_sender_language_counterexample:
  "map (\<lambda>p. rp_language (fst p)) (getRoomParticipants store_with_blank_language 42) = [''''] \<and>
   map rp_language (membership store_with_blank_language 42 1) = [''''] \<and>
   snd (send_message ApiThrows (\<lambda>_. None)
          (fst (join_room (fst (authenticate (initial_state store_with_blank_language) ''sA'' 1))
                  ''sA'' 42))
          ''sA'' 42 ''Hello'' None) =
     [CallTranslator ''Hello'' [''''],
      StoreCreateMessage (demo_message ''Hello'' ''unknown'' ['''' \<mapsto> ''Hello'']),
      Emit [''sA'']
        (NewMessage (demo_message ''Hello'' ''unknown'' ['''' \<mapsto> ''Hello'']) demo_sender
           \<lparr>tr_detectedLanguage = ''unknown'', tr_translations = ['''' \<mapsto> ''Hello''],
            tr_confidence = 0\<rparr>)]"
  by (simp add: send_message_def authenticate_def join_room_def initial_state_def
      store_with_blank_language_def joinRoom_def demo_store_def demo_message_def demo_sender_def
      store_defs socket_defs Let_def trim_def is_space_def translateMessage_def fallback_def)

text \<open>
  C5, amended. When an authenticated participant of an existing room sends a message and
  either every participant language equals \<open>senderLang\<close> or the content trims to
  the empty string, the translator is not called (the effects are the insert and the
  broadcast only, whatever the translator would answer), the stored message has
  \<open>senderLang\<close> as its original language and an empty translation map, and the
  broadcast confidence is 1. Here \<open>senderLang\<close> is the language of the sender's
  participant row when that is a non-empty string, and \<open>en\<close> when it is empty.
\<close>

theorem send_message_without_translation:
  assumes "currentUserId st sid = Some uid" and "uid \<noteq> 0"
    and "isUserInRoom (storage st) roomId uid"
    and "getRoomById (storage st) roomId = Some room"
    and "(\<forall>p \<in> set (getRoomParticipants (storage st) roomId).
            rp_language (fst p) = senderLang (storage st) roomId uid) \<or>
         trim content = []"
  shows "\<exists>m sender.
           send_message api parse st sid roomId content messageType =
             (st\<lparr>storage := (storage st)\<lparr>messages := messages (storage st) @ [m],
                                         messages_seq := messages_seq (storage st) + 1\<rparr>\<rparr>,
              [StoreCreateMessage m,
               Emit (live_group st roomId)
                 (NewMessage m sender
                    \<lparr>tr_detectedLanguage = senderLang (storage st) roomId uid,
                     tr_translations = Map.empty, tr_confidence = 1\<rparr>)]) \<and>
           msg_content m = content \<and> msg_roomId m = roomId \<and> msg_senderId m = uid \<and>
           msg_originalLanguage m = Some (senderLang (storage st) roomId uid) \<and>
           msg_translatedContent m = Some Map.empty \<and>
           (\<forall>u p ps. getUserById (storage st) uid = Some u \<and>
                      membership (storage st) roomId uid = p # ps \<longrightarrow>
                      senderLang (storage st) roomId uid =
                        (if rp_language p = [] then ''en'' else rp_language p))"
proof -
  have skip: "\<not> (targetLanguages (storage st) roomId uid \<noteq> [] \<and> trim content \<noteq> [])"
    using assms(5) by (auto simp: targetLanguages_empty_iff)
  have stored: "\<forall>u p ps. getUserById (storage st) uid = Some u \<and>
                      membership (storage st) roomId uid = p # ps \<longrightarrow>
                      senderLang (storage st) roomId uid =
                        (if rp_language p = [] then ''en'' else rp_language p)"
    using senderLang_stored by blast
  from skip have no_call:
    "(targetLanguages (storage st) roomId uid \<noteq> [] \<and> trim content \<noteq> []) = False"
    by simp
  show ?thesis
    unfolding send_message_reached [OF assms(1-4)] Let_def no_call
    using stored by (simp add: createMessage_def Let_def)
qed

theorem send_message_without_translation_witness:
  "targetLanguages
     (demo_store\<lparr>roomParticipants :=
        [\<lparr>rp_id = 1, rp_roomId = 42, rp_userId = 1, rp_language = ''en'', rp_joinedAt = 3\<rparr>]\<rparr>)
     42 1 = [] \<and>
   (\<exists>m sender.
      snd (send_message ApiThrows (\<lambda>_. None)
        (demo_state\<lparr>storage := demo_store\<lparr>roomParticipants :=
           [\<lparr>rp_id = 1, rp_roomId = 42, rp_userId = 1, rp_language = ''en'', rp_joinedAt = 3\<rparr>]\<rparr>\<rparr>)
        ''sA'' 42 ''Hello'' None) =
        [StoreCreateMessage m,
         Emit [''sA'', ''sB'']
           (NewMessage m sender
              \<lparr>tr_detectedLanguage = ''en'', tr_translations = Map.empty, tr_confidence = 1\<rparr>)] \<and>
      msg_content m = ''Hello'' \<and> msg_originalLanguage m = Some ''en'' \<and>
      msg_translatedContent m = Some Map.empty) \<and>
   targetLanguages (storage demo_state) 42 1 = [''es''] \<and> trim [CHR '' '', CHR 0x09, CHR 0x0A] = [] \<and>
   (\<exists>m sender.
      snd (send_message ApiThrows (\<lambda>_. None) demo_state ''sA'' 42 [CHR '' '', CHR 0x09, CHR 0x0A] None) =
        [StoreCreateMessage m,
         Emit [''sA'', ''sB'']
           (NewMessage m sender
              \<lparr>tr_detectedLanguage = ''en'', tr_translations = Map.empty, tr_confidence = 1\<rparr>)] \<and>
      msg_content m = [CHR '' '', CHR 0x09, CHR 0x0A] \<and> msg_originalLanguage m = Some ''en'' \<and>
      msg_translatedContent m = Some Map.empty)"
proof -
  let ?db = "demo_store\<lparr>roomParticipants :=
        [\<lparr>rp_id = 1, rp_roomId = 42, rp_userId = 1, rp_language = ''en'', rp_joinedAt = 3\<rparr>]\<rparr>"
  let ?st = "demo_state\<lparr>storage := ?db\<rparr>"
  let ?blank = "[CHR '' '', CHR 0x09, CHR 0x0A]"
  have cu: "currentUserId ?st ''sA'' = Some 1"
    and group: "live_group ?st 42 = [''sA'', ''sB'']"
    by (simp_all add: demo_state_eq)
  have member: "isUserInRoom (storage ?st) 42 1"
    and room: "getRoomById (storage ?st) 42 = Some (hd (rooms demo_store))"
    and lang: "senderLang (storage ?st) 42 1 = ''en''"
    and ts: "targetLanguages ?db 42 1 = []"
    by (simp_all add: demo_store_def store_defs socket_defs)
  have same: "(\<forall>p \<in> set (getRoomParticipants (storage ?st) 42).
                 rp_language (fst p) = senderLang (storage ?st) 42 1) \<or> trim ''Hello'' = []"
    using ts by (simp add: targetLanguages_empty_iff)
  have first: "\<exists>m sender.
      snd (send_message ApiThrows (\<lambda>_. None) ?st ''sA'' 42 ''Hello'' None) =
        [StoreCreateMessage m,
         Emit [''sA'', ''sB'']
           (NewMessage m sender
              \<lparr>tr_detectedLanguage = ''en'', tr_translations = Map.empty, tr_confidence = 1\<rparr>)] \<and>
      msg_content m = ''Hello'' \<and> msg_originalLanguage m = Some ''en'' \<and>
      msg_translatedContent m = Some Map.empty"
    using send_message_without_translation [OF cu _ member room same, of ApiThrows "\<lambda>_. None" None]
      group lang
    by auto
  have cu': "currentUserId demo_state ''sA'' = Some 1"
    and group': "live_group demo_state 42 = [''sA'', ''sB'']"
    and member': "isUserInRoom (storage demo_state) 42 1"
    and room': "getRoomById (storage demo_state) 42 = Some (hd (rooms demo_store))"
    and lang': "senderLang (storage demo_state) 42 1 = ''en''"
    and ts': "targetLanguages (storage demo_state) 42 1 = [''es'']"
    by (simp_all add: demo_state_eq demo_store_def store_defs socket_defs)
  have blank: "trim ?blank = []"
    by (simp add: trim_def is_space_def)
  then have blank': "(\<forall>p \<in> set (getRoomParticipants (storage demo_state) 42).
                 rp_language (fst p) = senderLang (storage demo_state) 42 1) \<or> trim ?blank = []"
    by simp
  have second: "\<exists>m sender.
      snd (send_message ApiThrows (\<lambda>_. None) demo_state ''sA'' 42 ?blank None) =
        [StoreCreateMessage m,
         Emit [''sA'', ''sB'']
           (NewMessage m sender
              \<lparr>tr_detectedLanguage = ''en'', tr_translations = Map.empty, tr_confidence = 1\<rparr>)] \<and>
      msg_content m = ?blank \<and> msg_originalLanguage m = Some ''en'' \<and>
      msg_translatedContent m = Some Map.empty"
    using send_message_without_translation [OF cu' _ member' room' blank', of ApiThrows "\<lambda>_. None" None]
      group' lang'
    by auto
  from first second ts ts' blank show ?thesis by blast
qed

text \<open>
  C6. What the code does when a connection whose only \<open>authenticate\<close> has failed
  asks to join. Ann is connected and joined. On socket \<open>sC\<close>, \<open>authenticate\<close>
  with id 3 fails (no such user yet) and registers no presence, but leaves
  \<open>currentUserId\<close> at 3. User 3 then registers and joins room 42 through the REST
  routes. \<open>join_room\<close> on \<open>sC\<close> now passes both guards: the connection, never
  authenticated, enters the live group of room 42, \<open>user_joined\<close> for user 3 goes
  to Ann, and \<open>online_users\<close> goes to both with the online list, which holds Ann only
  (Bo is not connected, and user 3 has no presence entry).
\<close>

theorem join_room_after_failed_authenticate:
  "getUserById demo_store 3 = None \<and>
   snd (authenticate ann_state ''sC'' 3) = [Emit [''sC''] (Error ''User not found'')] \<and>
   onlineUsers (fst (authenticate ann_state ''sC'' 3)) 3 = None \<and>
   isUserInRoom store_with_cy 42 3 \<and>
   snd (join_room ((fst (authenticate ann_state ''sC'' 3))\<lparr>storage := store_with_cy\<rparr>) ''sC'' 42) =
     [Emit [''sA''] (UserJoined 3 (Some ''Cy'') 42),
      Emit [''sA'', ''sC''] (OnlineUsers 42 [1])] \<and>
   live_group
     (fst (join_room ((fst (authenticate ann_state ''sC'' 3))\<lparr>storage := store_with_cy\<rparr>) ''sC'' 42))
     42 = [''sA'', ''sC'']"
  by (simp add: ann_state_eq authenticate_def join_room_def store_with_cy_def demo_store_def
      store_defs socket_defs Let_def)

text \<open>
  The rest of C6 holds in general, for the guard as the code has it. On a connection
  whose \<open>currentUserId\<close> is \<open>null\<close> (or 0) the handler emits one
  \<open>Not authenticated\<close> error to the caller and changes nothing; for a user id that is
  no participant of the room it changes nothing either and emits one
  \<open>Not a member of this room\<close> error to the caller, unless an id is out of range and
  the query raises. Otherwise it adds the connection to the room's live group and the
  room to the connection's entry of \<open>userRooms\<close>, then emits \<open>user_joined\<close> to
  the live group without the joiner, then \<open>online_users\<close> to the whole live group,
  the joiner included, carrying the ids of the room's participants, in the order of
  their rows, that have an entry in \<open>onlineUsers\<close>.
\<close>

theorem join_room_protocol:
  "((currentUserId st sid = None \<or> currentUserId st sid = Some 0) \<longrightarrow>
      join_room st sid roomId = (st, [Emit [sid] (Error ''Not authenticated'')])) \<and>
   (\<forall>uid. currentUserId st sid = Some uid \<and> uid \<noteq> 0 \<and> \<not> isUserInRoom (storage st) roomId uid \<longrightarrow>
      join_room st sid roomId =
        (st, [if int4 roomId \<and> int4 uid then Emit [sid] (Error ''Not a member of this room'')
              else Throws OutOfRange])) \<and>
   (\<forall>uid. currentUserId st sid = Some uid \<and> uid \<noteq> 0 \<and> isUserInRoom (storage st) roomId uid \<longrightarrow>
      (\<exists>st'.
         join_room st sid roomId =
           (st',
            [Emit (filter (\<lambda>s. s \<noteq> sid) (live_group st' roomId))
               (UserJoined uid (map_option user_displayName (getUserById (storage st) uid)) roomId),
             Emit (live_group st' roomId)
               (OnlineUsers roomId
                  (map (\<lambda>p. rp_userId (fst p))
                     (filter (\<lambda>p. onlineUsers st (rp_userId (fst p)) \<noteq> None)
                        (getRoomParticipants (storage st) roomId))))]) \<and>
         live_group st' = (live_group st)(roomId := set_add sid (live_group st roomId)) \<and>
         sid \<in> set (live_group st' roomId) \<and>
         (\<exists>rs. userRooms st' sid = Some rs \<and> roomId \<in> set rs) \<and>
         (\<forall>s. s \<noteq> sid \<longrightarrow> userRooms st' s = userRooms st s) \<and>
         storage st' = storage st \<and> onlineUsers st' = onlineUsers st \<and>
         currentUserId st' = currentUserId st))"
proof (intro conjI allI impI)
  assume "currentUserId st sid = None \<or> currentUserId st sid = Some 0"
  then show "join_room st sid roomId = (st, [Emit [sid] (Error ''Not authenticated'')])"
    by (auto simp: join_room_def with_user_def)
next
  fix uid
  assume "currentUserId st sid = Some uid \<and> uid \<noteq> 0 \<and> \<not> isUserInRoom (storage st) roomId uid"
  then show "join_room st sid roomId =
        (st, [if int4 roomId \<and> int4 uid then Emit [sid] (Error ''Not a member of this room'')
              else Throws OutOfRange])"
    by (simp add: join_room_def with_user_def)
next
  fix uid
  assume ok: "currentUserId st sid = Some uid \<and> uid \<noteq> 0 \<and> isUserInRoom (storage st) roomId uid"
  let ?st' = "st\<lparr>live_group := (live_group st)(roomId := set_add sid (live_group st roomId)),
                 userRooms := (userRooms st)(sid \<mapsto>
                   set_add roomId (case userRooms st sid of None \<Rightarrow> [] | Some rs \<Rightarrow> rs))\<rparr>"
  have run: "join_room st sid roomId =
      (?st',
       [Emit (filter (\<lambda>s. s \<noteq> sid) (live_group ?st' roomId))
          (UserJoined uid (map_option user_displayName (getUserById (storage st) uid)) roomId),
        Emit (live_group ?st' roomId)
          (OnlineUsers roomId
             (map (\<lambda>p. rp_userId (fst p))
                (filter (\<lambda>p. onlineUsers st (rp_userId (fst p)) \<noteq> None)
                   (getRoomParticipants (storage st) roomId))))])"
    using ok by (simp add: join_room_def with_user_def Let_def others_def getOnlineUsersInRoom_def)
  have in_set: "x \<in> set (set_add x xs)" for x :: "'a" and xs
    by (simp add: set_add_def)
  show "\<exists>st'.
         join_room st sid roomId =
           (st',
            [Emit (filter (\<lambda>s. s \<noteq> sid) (live_group st' roomId))
               (UserJoined uid (map_option user_displayName (getUserById (storage st) uid)) roomId),
             Emit (live_group st' roomId)
               (OnlineUsers roomId
                  (map (\<lambda>p. rp_userId (fst p))
                     (filter (\<lambda>p. onlineUsers st (rp_userId (fst p)) \<noteq> None)
                        (getRoomParticipants (storage st) roomId))))]) \<and>
         live_group st' = (live_group st)(roomId := set_add sid (live_group st roomId)) \<and>
         sid \<in> set (live_group st' roomId) \<and>
         (\<exists>rs. userRooms st' sid = Some rs \<and> roomId \<in> set rs) \<and>
         (\<forall>s. s \<noteq> sid \<longrightarrow> userRooms st' s = userRooms st s) \<and>
         storage st' = storage st \<and> onlineUsers st' = onlineUsers st \<and>
         currentUserId st' = currentUserId st"
    by (rule exI [of _ ?st']) (auto simp: run in_set)
qed

lemma demo_before_join:
  "fst (authenticate ann_state ''sB'' 2) =
     \<lparr>storage = demo_store,
      onlineUsers = (\<lambda>_. None)(1 \<mapsto> [''sA''], 2 \<mapsto> [''sB'']),
      userRooms = (\<lambda>_. None)(''sA'' \<mapsto> [42]),
      live_group = (\<lambda>_. [])(42 := [''sA'']),
      currentUserId = (\<lambda>_. None)(''sA'' := Some 1, ''sB'' := Some 2)\<rparr>"
  by (simp add: ann_state_eq authenticate_def demo_store_def store_defs socket_defs Let_def)

theorem join_room_protocol_witness:
  "join_room (initial_state demo_store) ''sC'' 42 =
     (initial_state demo_store, [Emit [''sC''] (Error ''Not authenticated'')]) \<and>
   join_room demo_state ''sA'' 7 = (demo_state, [Emit [''sA''] (Error ''Not a member of this room'')]) \<and>
   join_room demo_state ''sA'' 2147483648 = (demo_state, [Throws OutOfRange]) \<and>
   join_room (fst (authenticate (initial_state demo_store) ''sA'' 1)) ''sA'' 42 =
     (ann_state, [Emit [] (UserJoined 1 (Some ''Ann'') 42), Emit [''sA''] (OnlineUsers 42 [1])]) \<and>
   join_room (fst (authenticate ann_state ''sB'' 2)) ''sB'' 42 =
     (fst (join_room (fst (authenticate ann_state ''sB'' 2)) ''sB'' 42),
      [Emit [''sA''] (UserJoined 2 (Some ''Bo'') 42), Emit [''sA'', ''sB''] (OnlineUsers 42 [1, 2])])"
proof -
  let ?first = "fst (authenticate (initial_state demo_store) ''sA'' 1)"
  let ?pre = "fst (authenticate ann_state ''sB'' 2)"
  have a: "currentUserId (initial_state demo_store) ''sC'' = None \<or>
           currentUserId (initial_state demo_store) ''sC'' = Some 0"
    by (simp add: initial_state_def)
  have b: "currentUserId demo_state ''sA'' = Some 1 \<and> (1::int) \<noteq> 0 \<and>
           \<not> isUserInRoom (storage demo_state) 7 1"
    and b': "currentUserId demo_state ''sA'' = Some 1 \<and> (1::int) \<noteq> 0 \<and>
           \<not> isUserInRoom (storage demo_state) 2147483648 1"
    and range: "int4 7" "int4 1" "\<not> int4 2147483648"
    by (simp_all add: demo_state_eq demo_store_def store_defs)
  have first: "?first =
     \<lparr>storage = demo_store, onlineUsers = (\<lambda>_. None)(1 \<mapsto> [''sA'']), userRooms = (\<lambda>_. None),
      live_group = (\<lambda>_. []), currentUserId = (\<lambda>_. None)(''sA'' := Some 1)\<rparr>"
    by (simp add: initial_state_def authenticate_def demo_store_def store_defs socket_defs Let_def)
  have c: "currentUserId ?first ''sA'' = Some 1 \<and> (1::int) \<noteq> 0 \<and> isUserInRoom (storage ?first) 42 1"
    unfolding first by (simp add: demo_store_def store_defs)
  have d: "currentUserId ?pre ''sB'' = Some 2 \<and> (2::int) \<noteq> 0 \<and> isUserInRoom (storage ?pre) 42 2"
    unfolding demo_before_join by (simp add: demo_store_def store_defs)
  from join_room_protocol [of ?first "''sA''" 42] c obtain st1
    where st1: "join_room ?first ''sA'' 42 =
        (st1,
         [Emit (filter (\<lambda>s. s \<noteq> ''sA'') (live_group st1 42))
            (UserJoined 1 (map_option user_displayName (getUserById (storage ?first) 1)) 42),
          Emit (live_group st1 42)
            (OnlineUsers 42
               (map (\<lambda>p. rp_userId (fst p))
                  (filter (\<lambda>p. onlineUsers ?first (rp_userId (fst p)) \<noteq> None)
                     (getRoomParticipants (storage ?first) 42))))])"
      "live_group st1 = (live_group ?first)(42 := set_add ''sA'' (live_group ?first 42))"
    by blast
  from st1(1) have "st1 = ann_state"
    by (simp add: ann_state_def)
  with st1 have third: "join_room ?first ''sA'' 42 =
     (ann_state, [Emit [] (UserJoined 1 (Some ''Ann'') 42), Emit [''sA''] (OnlineUsers 42 [1])])"
    unfolding first by (simp add: demo_store_def store_defs socket_defs)
  from join_room_protocol [of ?pre "''sB''" 42] d obtain st2
    where st2: "join_room ?pre ''sB'' 42 =
        (st2,
         [Emit (filter (\<lambda>s. s \<noteq> ''sB'') (live_group st2 42))
            (UserJoined 2 (map_option user_displayName (getUserById (storage ?pre) 2)) 42),
          Emit (live_group st2 42)
            (OnlineUsers 42
               (map (\<lambda>p. rp_userId (fst p))
                  (filter (\<lambda>p. onlineUsers ?pre (rp_userId (fst p)) \<noteq> None)
                     (getRoomParticipants (storage ?pre) 42))))])"
      "live_group st2 = (live_group ?pre)(42 := set_add ''sB'' (live_group ?pre 42))"
    by blast
  from st2(1) have "st2 = fst (join_room ?pre ''sB'' 42)"
    by simp
  with st2 have fourth: "join_room ?pre ''sB'' 42 =
     (fst (join_room ?pre ''sB'' 42),
      [Emit [''sA''] (UserJoined 2 (Some ''Bo'') 42), Emit [''sA'', ''sB''] (OnlineUsers 42 [1, 2])])"
    unfolding demo_before_join by (simp add: demo_store_def store_defs socket_defs)
  from join_room_protocol [of "initial_state demo_store" "''sC''" 42] a
    join_room_protocol [of demo_state "''sA''" 7] b
    join_room_protocol [of demo_state "''sA''" 2147483648] b' range third fourth
  show ?thesis by simp
qed

lemma no_member_of_missing_room:
  assumes "participants_reference_rooms d" and "getRoomById d roomId = None"
  shows "\<not> isUserInRoom d roomId uid"
  using assms
  by (auto simp: participants_reference_rooms_def isUserInRoom_def membership_def
      filter_empty_conv list_all_iff)

text \<open>
  C7, as stated, fails: a missing room or user is not always answered with an error
  event. \<open>typing\<close> for room 77, which the store does not have, is relayed (to nobody)
  and the caller gets no error. \<open>authenticate\<close> for the user id 2147483648, which no
  user has, makes the store query raise, and so does \<open>send_message\<close> by Ann for the
  room id 2147483648, which \<open>getRoomById\<close> cannot resolve: the handler stops and
  emits nothing.
\<close>

theorem unreported_missing_resource_counterexample:
  "getRoomById (storage demo_state) 77 = None \<and>
   typing demo_state ''sA'' 77 True = (demo_state, [Emit [] (UserTyping 1 77 True)]) \<and>
   getUserById demo_store 2147483648 = None \<and>
   snd (authenticate (initial_state demo_store) ''sC'' 2147483648) = [Throws OutOfRange] \<and>
   getRoomById (storage demo_state) 2147483648 = None \<and>
   send_message ApiThrows (\<lambda>_. None) demo_state ''sA'' 2147483648 ''Hello'' None =
     (demo_state, [Throws OutOfRange])"
  by (simp add: demo_state_eq typing_def authenticate_def send_message_def initial_state_def
      demo_store_def store_defs socket_defs Let_def)

text \<open>
  C7, amended. With ids inside the integer range of the id columns, the handlers that
  look a resource up answer a missing one with a scoped error to the caller:
  \<open>authenticate\<close> for a user the store does not have emits \<open>User not found\<close> and
  registers no presence; on a store whose participant rows belong to existing rooms,
  \<open>send_message\<close> and \<open>join_room\<close> for a room the store does not have emit
  \<open>Not authenticated\<close> when the connection's \<open>currentUserId\<close> is unset and
  \<open>Not a member of this room\<close> otherwise, and never return silently. With an id
  outside that range the store query raises and the handler emits nothing. \<open>typing\<close>
  looks nothing up: it is relayed whatever the store holds, with no error for a missing
  room.
\<close>

theorem missing_resources:
  "(getUserById (storage st) userId = None \<longrightarrow>
      snd (authenticate st sid userId) =
        [if int4 userId then Emit [sid] (Error ''User not found'') else Throws OutOfRange] \<and>
      onlineUsers (fst (authenticate st sid userId)) = onlineUsers st) \<and>
   (getRoomById (storage st) roomId = None \<and> participants_reference_rooms (storage st) \<longrightarrow>
      ((currentUserId st sid = None \<or> currentUserId st sid = Some 0) \<longrightarrow>
         send_message api parse st sid roomId content messageType =
           (st, [Emit [sid] (Error ''Not authenticated'')]) \<and>
         join_room st sid roomId = (st, [Emit [sid] (Error ''Not authenticated'')])) \<and>
      (\<forall>uid. currentUserId st sid = Some uid \<and> uid \<noteq> 0 \<longrightarrow>
         send_message api parse st sid roomId content messageType =
           (st, [if int4 roomId \<and> int4 uid then Emit [sid] (Error ''Not a member of this room'')
                 else Throws OutOfRange]) \<and>
         join_room st sid roomId =
           (st, [if int4 roomId \<and> int4 uid then Emit [sid] (Error ''Not a member of this room'')
                 else Throws OutOfRange]))) \<and>
   (\<forall>uid. currentUserId st sid = Some uid \<and> uid \<noteq> 0 \<longrightarrow>
      typing st sid roomId isTyping =
        (st, [Emit (filter (\<lambda>s. s \<noteq> sid) (live_group st roomId)) (UserTyping uid roomId isTyping)]))"
proof (intro conjI impI allI)
  assume "getUserById (storage st) userId = None"
  then show "snd (authenticate st sid userId) =
        [if int4 userId then Emit [sid] (Error ''User not found'') else Throws OutOfRange]"
    and "onlineUsers (fst (authenticate st sid userId)) = onlineUsers st"
    by (simp_all add: authenticate_def Let_def)
next
  assume "currentUserId st sid = None \<or> currentUserId st sid = Some 0"
  then show "send_message api parse st sid roomId content messageType =
           (st, [Emit [sid] (Error ''Not authenticated'')])"
    and "join_room st sid roomId = (st, [Emit [sid] (Error ''Not authenticated'')])"
    by (auto simp: send_message_def join_room_def with_user_def)
next
  fix uid
  assume missing: "getRoomById (storage st) roomId = None \<and> participants_reference_rooms (storage st)"
    and cu: "currentUserId st sid = Some uid \<and> uid \<noteq> 0"
  from missing have "\<not> isUserInRoom (storage st) roomId uid"
    by (simp add: no_member_of_missing_room)
  with cu show "send_message api parse st sid roomId content messageType =
           (st, [if int4 roomId \<and> int4 uid then Emit [sid] (Error ''Not a member of this room'')
                 else Throws OutOfRange])"
    and "join_room st sid roomId =
           (st, [if int4 roomId \<and> int4 uid then Emit [sid] (Error ''Not a member of this room'')
                 else Throws OutOfRange])"
    by (simp_all add: send_message_def join_room_def with_user_def)
next
  fix uid
  assume "currentUserId st sid = Some uid \<and> uid \<noteq> 0"
  then show "typing st sid roomId isTyping =
        (st, [Emit (filter (\<lambda>s. s \<noteq> sid) (live_group st roomId)) (UserTyping uid roomId isTyping)])"
    by (simp add: typing_def with_user_def others_def)
qed

theorem missing_resources_witness:
  "participants_reference_rooms demo_store \<and>
   snd (authenticate (initial_state demo_store) ''sC'' 9) = [Emit [''sC''] (Error ''User not found'')] \<and>
   send_message ApiThrows (\<lambda>_. None) (initial_state demo_store) ''sC'' 77 ''Hello'' None =
     (initial_state demo_store, [Emit [''sC''] (Error ''Not authenticated'')]) \<and>
   send_message ApiThrows (\<lambda>_. None) demo_state ''sA'' 77 ''Hello'' None =
     (demo_state, [Emit [''sA''] (Error ''Not a member of this room'')]) \<and>
   join_room demo_state ''sA'' 77 = (demo_state, [Emit [''sA''] (Error ''Not a member of this room'')]) \<and>
   typing demo_state ''sA'' 77 False = (demo_state, [Emit [] (UserTyping 1 77 False)])"
proof -
  have fk: "participants_reference_rooms demo_store"
    by (simp add: participants_reference_rooms_def demo_store_def getRoomById_def)
  have u: "getUserById (storage (initial_state demo_store)) 9 = None"
    and r: "getRoomById (storage (initial_state demo_store)) 77 = None \<and>
            participants_reference_rooms (storage (initial_state demo_store))"
    and a: "currentUserId (initial_state demo_store) ''sC'' = None \<or>
            currentUserId (initial_state demo_store) ''sC'' = Some 0"
    using fk by (simp_all add: initial_state_def demo_store_def store_defs)
  have r': "getRoomById (storage demo_state) 77 = None \<and>
            participants_reference_rooms (storage demo_state)"
    and b: "currentUserId demo_state ''sA'' = Some 1 \<and> (1::int) \<noteq> 0"
    and range: "int4 9" "int4 77" "int4 1"
    and group: "live_group demo_state 77 = []"
    using fk by (simp_all add: demo_state_eq demo_store_def store_defs)
  from missing_resources [of "initial_state demo_store" 9 "''sC''" 77 ApiThrows "\<lambda>_. None" "''Hello''" None False]
    missing_resources [of demo_state 9 "''sA''" 77 ApiThrows "\<lambda>_. None" "''Hello''" None False]
    fk u r a r' b range group
  show ?thesis by simp
qed

text \<open>
  C3. What the code does after a failed \<open>authenticate\<close>. With no user 5 in the store,
  \<open>authenticate\<close> with id 5 emits \<open>User not found\<close> but leaves \<open>currentUserId\<close>
  of the connection at 5: a following \<open>join_room\<close> or \<open>send_message\<close> passes the
  authentication guard and answers \<open>Not a member of this room\<close> instead of
  \<open>Not authenticated\<close>, and a following \<open>typing\<close> is relayed to the room's live
  group under the id 5.
\<close>

theorem failed_authenticate_keeps_user_id:
  "getUserById demo_store 5 = None \<and>
   snd (authenticate (initial_state demo_store) ''sC'' 5) = [Emit [''sC''] (Error ''User not found'')] \<and>
   currentUserId (fst (authenticate (initial_state demo_store) ''sC'' 5)) ''sC'' = Some 5 \<and>
   snd (join_room (fst (authenticate (initial_state demo_store) ''sC'' 5)) ''sC'' 42) =
     [Emit [''sC''] (Error ''Not a member of this room'')] \<and>
   snd (send_message ApiThrows (\<lambda>_. None) (fst (authenticate (initial_state demo_store) ''sC'' 5))
          ''sC'' 42 ''Hello'' None) =
     [Emit [''sC''] (Error ''Not a member of this room'')] \<and>
   snd (typing (fst (authenticate demo_state ''sC'' 5)) ''sC'' 42 True) =
     [Emit [''sA'', ''sB''] (UserTyping 5 42 True)]"
  by (simp add: demo_state_eq authenticate_def join_room_def send_message_def typing_def
      initial_state_def demo_store_def store_defs socket_defs Let_def)

text \<open>
  C4, as stated, fails: a user can be in a room's derived online list without any
  connection of theirs in the room's live group. After Ann's connection has only
  authenticated, it has joined no room, yet the online list of room 42 holds Ann.
\<close>

theorem online_without_joining_counterexample:
  "currentUserId (fst (authenticate (initial_state demo_store) ''sA'' 1)) ''sA'' = Some 1 \<and>
   live_group (fst (authenticate (initial_state demo_store) ''sA'' 1)) 42 = [] \<and>
   userRooms (fst (authenticate (initial_state demo_store) ''sA'' 1)) ''sA'' = None \<and>
   getOnlineUsersInRoom (fst (authenticate (initial_state demo_store) ''sA'' 1)) 42 = [1]"
  by (simp add: authenticate_def initial_state_def demo_store_def store_defs socket_defs Let_def)

lemma set_getRoomParticipants_rows:
  "set (getRoomParticipants d roomId) =
     {(p, u). p \<in> set (roomParticipants d) \<and> rp_roomId p = roomId \<and>
              getUserById d (rp_userId p) = Some u}"
  by (auto simp: getRoomParticipants_def split: option.splits)

lemma set_getRoomParticipants:
  "rp_userId ` fst ` set (getRoomParticipants d roomId) =
     {u. getUserById d u \<noteq> None \<and> isUserInRoom d roomId u}"
proof (intro set_eqI iffI)
  fix x
  assume "x \<in> rp_userId ` fst ` set (getRoomParticipants d roomId)"
  then obtain p u where "p \<in> set (roomParticipants d)" "rp_roomId p = roomId"
      "getUserById d (rp_userId p) = Some u" "x = rp_userId p"
    by (auto simp: set_getRoomParticipants_rows)
  then show "x \<in> {u. getUserById d u \<noteq> None \<and> isUserInRoom d roomId u}"
    by (auto simp: isUserInRoom_def membership_def filter_empty_conv)
next
  fix x
  assume "x \<in> {u. getUserById d u \<noteq> None \<and> isUserInRoom d roomId u}"
  then obtain p u where "p \<in> set (roomParticipants d)" "rp_roomId p = roomId" "rp_userId p = x"
      "getUserById d x = Some u"
    by (auto simp: isUserInRoom_def membership_def filter_empty_conv)
  then have "(p, u) \<in> set (getRoomParticipants d roomId)"
    by (simp add: set_getRoomParticipants_rows)
  then have "rp_userId (fst (p, u)) \<in> rp_userId ` fst ` set (getRoomParticipants d roomId)"
    by (intro imageI)
  with \<open>rp_userId p = x\<close> show "x \<in> rp_userId ` fst ` set (getRoomParticipants d roomId)"
    by simp
qed

text \<open>
  C4, amended. In every state, a user is in a room's derived online list exactly when the
  user has an entry in \<open>onlineUsers\<close>, a user row, and a participant row for the room.
  A successful \<open>authenticate\<close> on any connection therefore puts a participant into the
  online list of the room, whether or not a connection of theirs has joined its live
  group, and \<open>join_room\<close> never changes the list.
\<close>

theorem online_members_characterised:
  "set (getOnlineUsersInRoom st roomId) =
     {u. onlineUsers st u \<noteq> None \<and> getUserById (storage st) u \<noteq> None \<and>
         isUserInRoom (storage st) roomId u} \<and>
   (getUserById (storage st) uid \<noteq> None \<and> isUserInRoom (storage st) roomId uid \<longrightarrow>
      uid \<in> set (getOnlineUsersInRoom (fst (authenticate st sid uid)) roomId)) \<and>
   getOnlineUsersInRoom (fst (join_room st sid roomId)) roomId = getOnlineUsersInRoom st roomId"
proof -
  have char: "set (getOnlineUsersInRoom s r) =
     {u. onlineUsers s u \<noteq> None \<and> getUserById (storage s) u \<noteq> None \<and>
         isUserInRoom (storage s) r u}" for s r
  proof -
    have "set (getOnlineUsersInRoom s r) =
        {u \<in> rp_userId ` fst ` set (getRoomParticipants (storage s) r). onlineUsers s u \<noteq> None}"
      by (auto simp: getOnlineUsersInRoom_def)
    then show ?thesis by (auto simp: set_getRoomParticipants)
  qed
  have auth: "uid \<in> set (getOnlineUsersInRoom (fst (authenticate st sid uid)) roomId)"
    if "getUserById (storage st) uid \<noteq> None \<and> isUserInRoom (storage st) roomId uid"
    using that by (auto simp: char authenticate_def Let_def)
  have join: "getOnlineUsersInRoom (fst (join_room st sid roomId)) roomId = getOnlineUsersInRoom st roomId"
    by (simp add: join_room_def with_user_def getOnlineUsersInRoom_def Let_def split: option.splits)
  from char auth join show ?thesis by blast
qed

theorem online_members_characterised_witness:
  "getUserById demo_store 2 \<noteq> None \<and> isUserInRoom demo_store 42 2 \<and>
   2 \<in> set (getOnlineUsersInRoom (fst (authenticate (initial_state demo_store) ''sB'' 2)) 42) \<and>
   live_group (fst (authenticate (initial_state demo_store) ''sB'' 2)) 42 = []"
proof -
  have u: "getUserById (storage (initial_state demo_store)) 2 \<noteq> None \<and>
           isUserInRoom (storage (initial_state demo_store)) 42 2"
    by (simp add: initial_state_def demo_store_def store_defs)
  have g: "live_group (fst (authenticate (initial_state demo_store) ''sB'' 2)) 42 = []"
    by (simp add: authenticate_def initial_state_def Let_def split: option.splits)
  from online_members_characterised [of "initial_state demo_store" 42 2 "''sB''"] u g
  show ?thesis by (simp add: initial_state_def)
qed


end
